theory Spec2Isabelle
  imports Main
begin

section \<open>Lively Pi: the wallpaper library and the wallpaper manager\<close>

text \<open>
  A shallow embedding of \<^verbatim>\<open>src/lively_pi.py\<close>: the classes \<^verbatim>\<open>WallpaperType\<close>,
  \<^verbatim>\<open>WallpaperConfig\<close>, \<^verbatim>\<open>WallpaperLibrary\<close> and \<^verbatim>\<open>WallpaperManager\<close>. Methods take the
  object's state and return the new one. Everything outside the process (the library file,
  the external tools, the child processes) is an explicit part of the state or an explicit
  environment, and every exception the source can meet is a value.
\<close>

subsection \<open>Python values and exceptions\<close>

text \<open>
  Python is dynamically typed: the dataclass annotations of \<^verbatim>\<open>WallpaperConfig\<close> are not
  checked, and \<^verbatim>\<open>load_library\<close> stores whatever \<^verbatim>\<open>json.load\<close> returned. So the fields of a
  record hold Python values. \<open>PyTuple\<close> is there because the \<^verbatim>\<open>json\<close> module writes
  tuples (as arrays), \<open>PyObject\<close> stands for an object of any other class, one that the
  \<^verbatim>\<open>json\<close> module cannot write and that is not path-like (a set, a bytes object).
  A dict is the list of its items in insertion order. Floats are not modelled.
  Equality of these values is structural, which is finer than Python's \<^verbatim>\<open>==\<close>.
\<close>

datatype pyval =
    PyNone
  | PyBool bool
  | PyInt int
  | PyStr string
  | PyList "pyval list"
  | PyTuple "pyval list"
  | PyDict "(pyval \<times> pyval) list"
  | PyObject nat

text \<open>The subclasses of \<^verbatim>\<open>Exception\<close> that the modelled code can meet.\<close>

datatype exn =
    TypeError
  | KeyError
  | ValueError
  | JSONDecodeError
  | UnicodeDecodeError
  | FileNotFoundError
  | PermissionError
  | AttributeError
  | OSError
  | TimeoutExpired

text \<open>\<^verbatim>\<open>d[k] = v\<close> on a dict: a present key keeps its position and takes the new value.\<close>

fun dict_set :: "(pyval \<times> pyval) list \<Rightarrow> pyval \<Rightarrow> pyval \<Rightarrow> (pyval \<times> pyval) list" where
  "dict_set [] k v = [(k, v)]"
| "dict_set ((k', v') # d) k v = (if k' = k then (k', v) # d else (k', v') # dict_set d k v)"

definition dict_from_pairs :: "(pyval \<times> pyval) list \<Rightarrow> (pyval \<times> pyval) list" where
  "dict_from_pairs kvs = foldl (\<lambda>d kv. dict_set d (fst kv) (snd kv)) [] kvs"

text \<open>\<^verbatim>\<open>item[key]\<close> with a string key: only a dict can answer.\<close>

fun getitem :: "pyval \<Rightarrow> string \<Rightarrow> exn + pyval" where
  "getitem (PyDict kvs) k = (case map_of kvs (PyStr k) of None \<Rightarrow> Inl KeyError | Some v \<Rightarrow> Inr v)"
| "getitem _ k = Inl TypeError"

text \<open>\<^verbatim>\<open>item.get(key, default)\<close>, called on a dict.\<close>

definition dict_get :: "(pyval \<times> pyval) list \<Rightarrow> string \<Rightarrow> pyval \<Rightarrow> pyval" where
  "dict_get kvs k dflt = (case map_of kvs (PyStr k) of None \<Rightarrow> dflt | Some v \<Rightarrow> v)"

text \<open>\<^verbatim>\<open>for item in data\<close>: the items a value yields, or the TypeError of a value that is not iterable.\<close>

fun py_iter :: "pyval \<Rightarrow> exn + pyval list" where
  "py_iter (PyList xs) = Inr xs"
| "py_iter (PyTuple xs) = Inr xs"
| "py_iter (PyDict kvs) = Inr (map fst kvs)"
| "py_iter (PyStr s) = Inr (map (\<lambda>c. PyStr [c]) s)"
| "py_iter _ = Inl TypeError"

subsection \<open>The json module\<close>

text \<open>
  The library file holds JSON text. A document is modelled by its syntax tree; an object
  is the list of its members as written (a name can occur twice). \<open>json_dump\<close> and
  \<open>json_load\<close> are the conversion tables of Python's \<^verbatim>\<open>json\<close> module.
\<close>

datatype json =
    JNull
  | JBool bool
  | JInt int
  | JStr string
  | JArr "json list"
  | JObj "(string \<times> json) list"

fun natstr :: "nat \<Rightarrow> string" where
  "natstr n = (if n < 10 then [char_of (48 + n)] else natstr (n div 10) @ [char_of (48 + n mod 10)])"

definition intstr :: "int \<Rightarrow> string" where
  "intstr i = (if i < 0 then CHR ''-'' # natstr (nat (- i)) else natstr (nat i))"

text \<open>The name the encoder writes for a dict key; other keys raise TypeError.\<close>

fun key_str :: "pyval \<Rightarrow> string option" where
  "key_str (PyStr s) = Some s"
| "key_str (PyBool b) = Some (if b then ''true'' else ''false'')"
| "key_str PyNone = Some ''null''"
| "key_str (PyInt i) = Some (intstr i)"
| "key_str _ = None"

text \<open>\<open>None\<close> is the TypeError of \<^verbatim>\<open>json.dump\<close> on a value it cannot write.\<close>

fun json_dump :: "pyval \<Rightarrow> json option" where
  "json_dump PyNone = Some JNull"
| "json_dump (PyBool b) = Some (JBool b)"
| "json_dump (PyInt i) = Some (JInt i)"
| "json_dump (PyStr s) = Some (JStr s)"
| "json_dump (PyList xs) = map_option JArr (those (map json_dump xs))"
| "json_dump (PyTuple xs) = map_option JArr (those (map json_dump xs))"
| "json_dump (PyDict kvs) =
     map_option JObj (those (map (\<lambda>kv.
        case key_str (fst kv) of
          None \<Rightarrow> None
        | Some k \<Rightarrow> (case json_dump (snd kv) of None \<Rightarrow> None | Some j \<Rightarrow> Some (k, j))) kvs))"
| "json_dump (PyObject n) = None"

fun json_load :: "json \<Rightarrow> pyval" where
  "json_load JNull = PyNone"
| "json_load (JBool b) = PyBool b"
| "json_load (JInt i) = PyInt i"
| "json_load (JStr s) = PyStr s"
| "json_load (JArr js) = PyList (map json_load js)"
| "json_load (JObj ms) = PyDict (dict_from_pairs (map (\<lambda>m. (PyStr (fst m), json_load (snd m))) ms))"

subsection \<open>Paths and strings\<close>

text \<open>\<^verbatim>\<open>s.split(c)\<close> for a one-character separator.\<close>

fun split_on :: "char \<Rightarrow> string \<Rightarrow> string list" where
  "split_on c [] = [[]]"
| "split_on c (x # xs) =
     (if x = c then [] # split_on c xs
      else (case split_on c xs of [] \<Rightarrow> [[x]] | w # ws \<Rightarrow> (x # w) # ws))"

text \<open>
  \<^verbatim>\<open>Path(p).name\<close> on a POSIX system: the last component of the path that is neither
  empty nor a single dot, and the empty string when there is none.
\<close>

definition path_name :: "string \<Rightarrow> string" where
  "path_name p =
     (case filter (\<lambda>x. x \<noteq> [] \<and> x \<noteq> ''.'') (split_on CHR ''/'' p) of
        [] \<Rightarrow> []
      | x # xs \<Rightarrow> last (x # xs))"

text \<open>\<^verbatim>\<open>s.rfind(c)\<close>, with \<open>None\<close> for Python's -1.\<close>

fun rfind :: "char \<Rightarrow> string \<Rightarrow> nat option" where
  "rfind c [] = None"
| "rfind c (x # xs) =
     (case rfind c xs of
        Some i \<Rightarrow> Some (Suc i)
      | None \<Rightarrow> if x = c then Some 0 else None)"

text \<open>
  \<^verbatim>\<open>Path(p).suffix\<close> (pathlib of Python 3.11): the name from its last dot on, unless that
  dot is the first or the last character of the name.
\<close>

definition path_suffix :: "string \<Rightarrow> string" where
  "path_suffix p =
     (let name = path_name p in
      case rfind CHR ''.'' name of
        None \<Rightarrow> []
      | Some i \<Rightarrow> if 0 < i \<and> i < length name - 1 then drop i name else [])"

text \<open>\<^verbatim>\<open>s.lower()\<close> on ASCII text; a \<open>char\<close> is a byte, other bytes stay as they are.\<close>

definition lower_char :: "char \<Rightarrow> char" where
  "lower_char c =
     (if 65 \<le> (of_char c :: nat) \<and> (of_char c :: nat) \<le> 90 then char_of ((of_char c :: nat) + 32) else c)"

definition lower :: "string \<Rightarrow> string" where
  "lower s = map lower_char s"

definition startswith :: "string \<Rightarrow> string \<Rightarrow> bool" where
  "startswith s pre = (take (length pre) s = pre)"

subsection \<open>WallpaperType and WallpaperConfig\<close>

datatype WallpaperType = IMAGE | VIDEO | WEB | STREAM

text \<open>The enum's \<^verbatim>\<open>.value\<close>.\<close>

fun type_value :: "WallpaperType \<Rightarrow> string" where
  "type_value IMAGE = ''image''"
| "type_value VIDEO = ''video''"
| "type_value WEB = ''web''"
| "type_value STREAM = ''stream''"

text \<open>The call \<^verbatim>\<open>WallpaperType(v)\<close>: the member with that value, or ValueError.\<close>

definition WallpaperType_of :: "pyval \<Rightarrow> exn + WallpaperType" where
  "WallpaperType_of v =
     (if v = PyStr ''image'' then Inr IMAGE
      else if v = PyStr ''video'' then Inr VIDEO
      else if v = PyStr ''web'' then Inr WEB
      else if v = PyStr ''stream'' then Inr STREAM
      else Inl ValueError)"

record WallpaperConfig =
  path :: pyval
  wallpaper_type :: WallpaperType
  monitor_id :: pyval
  properties :: pyval
  enabled :: pyval

text \<open>
  The constructor with \<^verbatim>\<open>__post_init__\<close>: \<^verbatim>\<open>properties\<close> given as \<^verbatim>\<open>None\<close> becomes a new
  empty dict. The declared defaults are \<^verbatim>\<open>monitor_id = -1\<close>, \<^verbatim>\<open>properties = None\<close> and
  \<^verbatim>\<open>enabled = True\<close>; callers of \<open>new_config\<close> pass them explicitly.
\<close>

definition new_config :: "pyval \<Rightarrow> WallpaperType \<Rightarrow> pyval \<Rightarrow> pyval \<Rightarrow> pyval \<Rightarrow> WallpaperConfig" where
  "new_config p t m pr e =
     \<lparr>path = p, wallpaper_type = t, monitor_id = m,
      properties = (if pr = PyNone then PyDict [] else pr), enabled = e\<rparr>"

subsection \<open>Console output\<close>

text \<open>
  What the program prints, one constructor for each \<^verbatim>\<open>print\<close> call of the modelled
  methods, with the values the text is formatted from. Printing itself is taken to succeed.
\<close>

type_synonym proc = nat

datatype msg =
    ErrorLoadingLibrary exn
  | LibrarySaved nat
  | ErrorSavingLibrary exn
  | AddedToLibrary string string
  | LibraryAt
  | LoadedCount nat
  | ManagerInitialized
  | SettingWallpaper string
  | TypeLine string
  | MonitorLine pyval
  | Applied
  | SettingImage
  | ImageSetFeh
  | FehError string
  | ImageSetGsettings
  | GsettingsError string
  | ImageConfigured string
  | InstallFehHint
  | ImageError exn
  | StartingVideo
  | LaunchingMpv
  | VideoStarted proc
  | MpvNotFound
  | InstallMpvHint
  | VideoError exn
  | WebWallpaper string
  | WebHint
  | WebInstallHint
  | WebConfigured string
  | WebNotFound string
  | WebError exn
  | Pausing
  | Paused nat
  | Resuming
  | Resumed nat
  | Stopping nat
  | AllStopped

record stdout =
  console :: "msg list"

definition print :: "msg \<Rightarrow> 'a stdout_scheme \<Rightarrow> 'a stdout_scheme" where
  "print x s = s\<lparr>console := console s @ [x]\<rparr>"

subsection \<open>WallpaperLibrary\<close>

text \<open>
  The state of the file at \<^verbatim>\<open>library_file\<close>: no file, text that is not JSON, or a JSON
  document. \<open>writable\<close> says whether opening the file for writing succeeds.
\<close>

datatype file_state = Absent | Invalid | Document json

record WallpaperLibrary = stdout +
  wallpapers :: "WallpaperConfig list"
  library_file :: file_state
  writable :: bool

text \<open>\<^verbatim>\<open>_detect_type\<close>.\<close>

definition detect_type :: "string \<Rightarrow> WallpaperType" where
  "detect_type p =
     (let ext = lower (path_suffix p) in
      if ext \<in> set [''.jpg'', ''.jpeg'', ''.png'', ''.bmp'', ''.gif''] then IMAGE
      else if ext \<in> set [''.mp4'', ''.avi'', ''.mkv'', ''.webm'', ''.mov''] then VIDEO
      else if ext \<in> set [''.html'', ''.htm''] \<or> startswith p ''http'' then WEB
      else IMAGE)"

text \<open>The body of the loop of \<^verbatim>\<open>load_library\<close>: the record built from one item of the file.\<close>

definition decode_item :: "pyval \<Rightarrow> exn + WallpaperConfig" where
  "decode_item item =
     (case getitem item ''path'' of
        Inl e \<Rightarrow> Inl e
      | Inr p \<Rightarrow>
          (case getitem item ''type'' of
             Inl e \<Rightarrow> Inl e
           | Inr t \<Rightarrow>
               (case WallpaperType_of t of
                  Inl e \<Rightarrow> Inl e
                | Inr ty \<Rightarrow>
                    (case item of
                       PyDict kvs \<Rightarrow>
                         Inr (new_config p ty
                                (dict_get kvs ''monitor_id'' (PyInt (- 1)))
                                (dict_get kvs ''properties'' (PyDict []))
                                (dict_get kvs ''enabled'' (PyBool True)))
                     | _ \<Rightarrow> Inl AttributeError))))"

text \<open>
  The loop of \<^verbatim>\<open>load_library\<close>: each record is appended as soon as it is built, so the
  records before the first failing item stay in the list when the exception is caught.
\<close>

fun load_items :: "pyval list \<Rightarrow> WallpaperConfig list \<Rightarrow> WallpaperConfig list \<times> exn option" where
  "load_items [] ws = (ws, None)"
| "load_items (item # items) ws =
     (case decode_item item of
        Inl e \<Rightarrow> (ws, Some e)
      | Inr config \<Rightarrow> load_items items (ws @ [config]))"

definition load_library :: "WallpaperLibrary \<Rightarrow> WallpaperLibrary" where
  "load_library s =
     (case library_file s of
        Absent \<Rightarrow> s
      | Invalid \<Rightarrow> print (ErrorLoadingLibrary JSONDecodeError) s
      | Document j \<Rightarrow>
          (case py_iter (json_load j) of
             Inl e \<Rightarrow> print (ErrorLoadingLibrary e) s
           | Inr items \<Rightarrow>
               (case load_items items (wallpapers s) of
                  (ws, None) \<Rightarrow> s\<lparr>wallpapers := ws\<rparr>
                | (ws, Some e) \<Rightarrow> print (ErrorLoadingLibrary e) (s\<lparr>wallpapers := ws\<rparr>))))"

text \<open>The dict that \<^verbatim>\<open>save_library\<close> builds for one record.\<close>

definition config_dict :: "WallpaperConfig \<Rightarrow> pyval" where
  "config_dict w =
     PyDict [(PyStr ''path'', path w),
             (PyStr ''type'', PyStr (type_value (wallpaper_type w))),
             (PyStr ''monitor_id'', monitor_id w),
             (PyStr ''properties'', properties w),
             (PyStr ''enabled'', enabled w)]"

text \<open>
  \<^verbatim>\<open>save_library\<close>. Opening the file for writing empties it, and \<^verbatim>\<open>json.dump\<close> writes
  as it goes: when it raises, the file is left with the unclosed beginning of an array,
  which is not JSON.
\<close>

definition save_library :: "WallpaperLibrary \<Rightarrow> WallpaperLibrary" where
  "save_library s =
     (let data = PyList (map config_dict (wallpapers s)) in
      if \<not> writable s then print (ErrorSavingLibrary PermissionError) s
      else (case json_dump data of
              None \<Rightarrow> print (ErrorSavingLibrary TypeError) (s\<lparr>library_file := Invalid\<rparr>)
            | Some j \<Rightarrow>
                print (LibrarySaved (length (wallpapers s))) (s\<lparr>library_file := Document j\<rparr>)))"

text \<open>
  \<^verbatim>\<open>add_wallpaper\<close>, with \<open>None\<close> for an omitted \<^verbatim>\<open>wallpaper_type\<close>. It returns the new
  state and the record; the path is a \<^verbatim>\<open>str\<close>, as the signature says.
\<close>

definition add_wallpaper :: "string \<Rightarrow> WallpaperType option \<Rightarrow> WallpaperLibrary \<Rightarrow> WallpaperLibrary \<times> WallpaperConfig" where
  "add_wallpaper p wt s =
     (let t = (case wt of None \<Rightarrow> detect_type p | Some t' \<Rightarrow> t');
          config = new_config (PyStr p) t (PyInt (- 1)) PyNone (PyBool True);
          s1 = s\<lparr>wallpapers := wallpapers s @ [config]\<rparr>;
          s2 = save_library s1
      in (print (AddedToLibrary (path_name p) (type_value t)) s2, config))"

text \<open>
  \<^verbatim>\<open>WallpaperLibrary.__init__\<close>, given the state of the file on disk: the list starts
  empty and \<^verbatim>\<open>load_library\<close> fills it.
\<close>

definition init_library :: "file_state \<Rightarrow> bool \<Rightarrow> WallpaperLibrary" where
  "init_library f w =
     (let s = load_library \<lparr>console = [], wallpapers = [], library_file = f, writable = w\<rparr>
      in print (LoadedCount (length (wallpapers s))) (print LibraryAt s))"

subsection \<open>WallpaperManager and its environment\<close>

text \<open>
  The manager talks to the operating system only through \<^verbatim>\<open>os.path.exists\<close>,
  \<^verbatim>\<open>Path.exists\<close>, \<^verbatim>\<open>subprocess.run\<close>, \<^verbatim>\<open>subprocess.Popen\<close> and the methods of the
  process handles. The environment gives the outcome of each such call: a result, or the
  exception it raises. \<^verbatim>\<open>subprocess.run\<close> returns the exit code and the captured stderr,
  which is \<open>None\<close> when its bytes cannot be decoded. A process handle is a number.
\<close>

record env =
  os_path_exists :: "string \<Rightarrow> bool"
  Path_exists :: "string \<Rightarrow> exn + bool"
  subprocess_run :: "string list \<Rightarrow> exn + (int \<times> string option)"
  subprocess_Popen :: "string list \<Rightarrow> exn + proc"
  proc_terminate :: "proc \<Rightarrow> exn option"
  proc_wait :: "proc \<Rightarrow> exn option"
  proc_kill :: "proc \<Rightarrow> exn option"
  proc_send_signal :: "proc \<Rightarrow> nat \<Rightarrow> exn option"

text \<open>The calls made to external tools and to process handles, in the order they are made.\<close>

datatype call =
    Run "string list"
  | Popen "string list"
  | Terminate proc
  | Wait proc nat
  | Kill proc
  | SendSignal proc nat

record WallpaperManager = stdout +
  active_processes :: "proc list"
  calls :: "call list"

text \<open>
  A statement of a method yields the new state and the exception it raises, if any:
  what was done before the exception stays done.
\<close>

type_synonym outcome = "WallpaperManager \<times> exn option"

definition and_then :: "outcome \<Rightarrow> (WallpaperManager \<Rightarrow> outcome) \<Rightarrow> outcome" where
  "and_then r f = (case r of (m, None) \<Rightarrow> f m | (m, Some e) \<Rightarrow> (m, Some e))"

definition try_except :: "outcome \<Rightarrow> (exn \<Rightarrow> WallpaperManager \<Rightarrow> outcome) \<Rightarrow> outcome" where
  "try_except body handler = (case body of (m, None) \<Rightarrow> (m, None) | (m, Some e) \<Rightarrow> handler e m)"

definition normally :: "WallpaperManager \<Rightarrow> outcome" where
  "normally m = (m, None)"

text \<open>A \<^verbatim>\<open>for\<close> loop over a list: an exception in the body ends it.\<close>

fun for_each :: "('a \<Rightarrow> WallpaperManager \<Rightarrow> outcome) \<Rightarrow> 'a list \<Rightarrow> WallpaperManager \<Rightarrow> outcome" where
  "for_each body [] m = (m, None)"
| "for_each body (x # xs) m = and_then (body x m) (for_each body xs)"

definition record_call :: "call \<Rightarrow> WallpaperManager \<Rightarrow> WallpaperManager" where
  "record_call c m = m\<lparr>calls := calls m @ [c]\<rparr>"

definition send_signal :: "env \<Rightarrow> proc \<Rightarrow> nat \<Rightarrow> WallpaperManager \<Rightarrow> outcome" where
  "send_signal ev p sig m = (record_call (SendSignal p sig) m, proc_send_signal ev p sig)"

definition terminate :: "env \<Rightarrow> proc \<Rightarrow> WallpaperManager \<Rightarrow> outcome" where
  "terminate ev p m = (record_call (Terminate p) m, proc_terminate ev p)"

definition wait :: "env \<Rightarrow> proc \<Rightarrow> nat \<Rightarrow> WallpaperManager \<Rightarrow> outcome" where
  "wait ev p timeout m = (record_call (Wait p timeout) m, proc_wait ev p)"

definition kill :: "env \<Rightarrow> proc \<Rightarrow> WallpaperManager \<Rightarrow> outcome" where
  "kill ev p m = (record_call (Kill p) m, proc_kill ev p)"

definition init_manager :: WallpaperManager where
  "init_manager = \<lparr>console = [ManagerInitialized], active_processes = [], calls = []\<rparr>"

text \<open>\<^verbatim>\<open>pause_all\<close> and \<^verbatim>\<open>resume_all\<close>: 19 is SIGSTOP and 18 is SIGCONT.\<close>

definition pause_all :: "env \<Rightarrow> WallpaperManager \<Rightarrow> outcome" where
  "pause_all ev m =
     and_then
       (for_each (\<lambda>process m'. try_except (send_signal ev process 19 m') (\<lambda>e. normally))
          (active_processes m) (print Pausing m))
       (\<lambda>m'. normally (print (Paused (length (active_processes m'))) m'))"

definition resume_all :: "env \<Rightarrow> WallpaperManager \<Rightarrow> outcome" where
  "resume_all ev m =
     and_then
       (for_each (\<lambda>process m'. try_except (send_signal ev process 18 m') (\<lambda>e. normally))
          (active_processes m) (print Resuming m))
       (\<lambda>m'. normally (print (Resumed (length (active_processes m'))) m'))"

text \<open>The body of the loop of \<^verbatim>\<open>stop_all\<close>, with its two nested handlers.\<close>

definition stop_process :: "env \<Rightarrow> proc \<Rightarrow> WallpaperManager \<Rightarrow> outcome" where
  "stop_process ev process m =
     try_except
       (and_then (terminate ev process m) (wait ev process 3))
       (\<lambda>e m'. try_except (kill ev process m') (\<lambda>e'. normally))"

definition stop_all :: "env \<Rightarrow> WallpaperManager \<Rightarrow> outcome" where
  "stop_all ev m =
     (if active_processes m \<noteq> [] then
        and_then
          (for_each (stop_process ev) (active_processes m)
             (print (Stopping (length (active_processes m))) m))
          (\<lambda>m'. normally (print AllStopped (m'\<lparr>active_processes := []\<rparr>)))
      else normally m)"

text \<open>\<^verbatim>\<open>_set_image_wallpaper\<close>.\<close>

definition set_image_wallpaper :: "env \<Rightarrow> string \<Rightarrow> WallpaperManager \<Rightarrow> outcome" where
  "set_image_wallpaper ev p m =
     try_except
       (let m1 = print SettingImage m in
        if os_path_exists ev ''/usr/bin/feh'' then
          (let cmd = [''feh'', ''--bg-fill'', p]; m2 = record_call (Run cmd) m1 in
           case subprocess_run ev cmd of
             Inl e \<Rightarrow> (m2, Some e)
           | Inr (returncode, stderr) \<Rightarrow>
               if returncode = 0 then normally (print ImageSetFeh m2)
               else (case stderr of
                       None \<Rightarrow> (m2, Some UnicodeDecodeError)
                     | Some text \<Rightarrow> normally (print (FehError text) m2)))
        else if os_path_exists ev ''/usr/bin/gsettings'' then
          (let cmd = [''gsettings'', ''set'', ''org.gnome.desktop.background'',
                      ''picture-uri'', ''file://'' @ p];
               m2 = record_call (Run cmd) m1 in
           case subprocess_run ev cmd of
             Inl e \<Rightarrow> (m2, Some e)
           | Inr (returncode, stderr) \<Rightarrow>
               if returncode = 0 then normally (print ImageSetGsettings m2)
               else (case stderr of
                       None \<Rightarrow> (m2, Some UnicodeDecodeError)
                     | Some text \<Rightarrow> normally (print (GsettingsError text) m2)))
        else normally (print InstallFehHint (print (ImageConfigured p) m1)))
       (\<lambda>e m'. normally (print (ImageError e) m'))"

text \<open>\<^verbatim>\<open>_set_video_wallpaper\<close>.\<close>

definition mpv_cmd :: "string \<Rightarrow> string list" where
  "mpv_cmd p =
     [''mpv'', ''--fullscreen'', ''--loop=inf'', ''--no-audio'', ''--vo=gpu'', ''--hwdec=auto'',
      ''--ontop=no'', ''--border=no'', ''--no-input-default-bindings'',
      ''--input-vo-keyboard=no'', ''--osc=no'', p]"

definition set_video_wallpaper :: "env \<Rightarrow> string \<Rightarrow> WallpaperManager \<Rightarrow> outcome" where
  "set_video_wallpaper ev p m =
     try_except
       (let m1 = print StartingVideo m;
            cmd = mpv_cmd p;
            m2 = record_call (Popen cmd) (print LaunchingMpv m1) in
        case subprocess_Popen ev cmd of
          Inl e \<Rightarrow> (m2, Some e)
        | Inr process \<Rightarrow>
            normally (print (VideoStarted process)
                    (m2\<lparr>active_processes := active_processes m2 @ [process]\<rparr>)))
       (\<lambda>e m'. if e = FileNotFoundError then normally (print InstallMpvHint (print MpvNotFound m'))
                else normally (print (VideoError e) m'))"

text \<open>\<^verbatim>\<open>_set_web_wallpaper\<close>.\<close>

definition set_web_wallpaper :: "env \<Rightarrow> string \<Rightarrow> WallpaperManager \<Rightarrow> outcome" where
  "set_web_wallpaper ev p m =
     (let m1 = print WebInstallHint (print WebHint (print (WebWallpaper p) m)) in
      try_except
        (if startswith p ''http'' then normally (print (WebConfigured p) m1)
         else (case Path_exists ev p of
                 Inl e \<Rightarrow> (m1, Some e)
               | Inr b \<Rightarrow> if b then normally (print (WebConfigured p) m1)
                          else normally (print (WebNotFound p) m1)))
        (\<lambda>e m'. normally (print (WebError e) m')))"

text \<open>
  \<^verbatim>\<open>set_wallpaper\<close>. The first \<^verbatim>\<open>print\<close> formats \<^verbatim>\<open>Path(config.path).name\<close>, which raises
  TypeError unless the path is a string. A stream record meets no branch.
\<close>

definition set_wallpaper :: "env \<Rightarrow> WallpaperConfig \<Rightarrow> WallpaperManager \<Rightarrow> outcome" where
  "set_wallpaper ev config m =
     (case path config of
        PyStr p \<Rightarrow>
          (let m0 = print (MonitorLine (monitor_id config))
                      (print (TypeLine (type_value (wallpaper_type config)))
                         (print (SettingWallpaper (path_name p)) m)) in
           and_then
             (and_then (stop_all ev m0)
                (\<lambda>m1. case wallpaper_type config of
                         IMAGE \<Rightarrow> set_image_wallpaper ev p m1
                       | VIDEO \<Rightarrow> set_video_wallpaper ev p m1
                       | WEB \<Rightarrow> set_web_wallpaper ev p m1
                       | STREAM \<Rightarrow> normally m1))
             (\<lambda>m2. normally (print Applied m2)))
      | _ \<Rightarrow> (m, Some TypeError))"

subsection \<open>Notions used to state the properties of the library\<close>

text \<open>
  The values that \<^verbatim>\<open>json.load\<close> can return: \<^verbatim>\<open>None\<close>, booleans, integers, strings,
  lists of such values, and dicts of such values whose keys are strings, each once.
\<close>

fun is_str :: "pyval \<Rightarrow> bool" where
  "is_str (PyStr s) = True"
| "is_str _ = False"

fun json_native :: "pyval \<Rightarrow> bool" where
  "json_native (PyList xs) = (\<forall>x \<in> set xs. json_native x)"
| "json_native (PyDict kvs) =
     (distinct (map fst kvs)
      \<and> (\<forall>kv \<in> set kvs. is_str (fst kv) \<and> json_native (snd kv)))"
| "json_native (PyTuple xs) = False"
| "json_native (PyObject n) = False"
| "json_native _ = True"

text \<open>A record whose four untyped fields hold such values, \<^verbatim>\<open>properties\<close> not being \<^verbatim>\<open>None\<close>.\<close>

definition json_native_config :: "WallpaperConfig \<Rightarrow> bool" where
  "json_native_config c =
     (json_native (path c) \<and> json_native (monitor_id c) \<and> json_native (properties c)
      \<and> properties c \<noteq> PyNone \<and> json_native (enabled c))"

text \<open>A record that \<^verbatim>\<open>json.dump\<close> can write: it raises on none of the four fields.\<close>

definition json_serializable_config :: "WallpaperConfig \<Rightarrow> bool" where
  "json_serializable_config c =
     (json_dump (path c) \<noteq> None \<and> json_dump (monitor_id c) \<noteq> None
      \<and> json_dump (properties c) \<noteq> None \<and> json_dump (enabled c) \<noteq> None)"

text \<open>
  The records decoded from the library file: those of the items before the first one that
  fails to decode; none when there is no file, or no JSON in it, or a document that cannot
  be iterated.
\<close>

definition decoded_records :: "file_state \<Rightarrow> WallpaperConfig list" where
  "decoded_records f =
     (case f of
        Document j \<Rightarrow>
          (case py_iter (json_load j) of
             Inl e \<Rightarrow> []
           | Inr items \<Rightarrow> map (\<lambda>item. projr (decode_item item))
                           (takeWhile (\<lambda>item. \<not> isl (decode_item item)) items))
      | _ \<Rightarrow> [])"

text \<open>
  A stored object is the list of its members. \<^verbatim>\<open>json.load\<close> keeps, for a name, the value
  of the last member with that name.
\<close>

definition member_value :: "(string \<times> json) list \<Rightarrow> string \<Rightarrow> json option" where
  "member_value ms k = map_of (rev ms) k"

text \<open>A stored object that has a \<^verbatim>\<open>path\<close>, and a \<^verbatim>\<open>type\<close> that is a value of the enum.\<close>

definition has_path_and_valid_type :: "(string \<times> json) list \<Rightarrow> bool" where
  "has_path_and_valid_type ms =
     (member_value ms ''path'' \<noteq> None
      \<and> (case member_value ms ''type'' of
            None \<Rightarrow> False
          | Some t \<Rightarrow> t \<in> set [JStr ''image'', JStr ''video'', JStr ''web'', JStr ''stream'']))"

text \<open>
  The record such an object stands for: an omitted \<^verbatim>\<open>monitor_id\<close> is -1, an omitted (or
  null) \<^verbatim>\<open>properties\<close> is an empty dict, an omitted \<^verbatim>\<open>enabled\<close> is true.
\<close>

definition record_with_defaults :: "(string \<times> json) list \<Rightarrow> WallpaperConfig" where
  "record_with_defaults ms =
     \<lparr>path = json_load (the (member_value ms ''path'')),
      wallpaper_type = projr (WallpaperType_of (json_load (the (member_value ms ''type'')))),
      monitor_id = (case member_value ms ''monitor_id'' of None \<Rightarrow> PyInt (- 1) | Some v \<Rightarrow> json_load v),
      properties = (case member_value ms ''properties'' of
                      None \<Rightarrow> PyDict []
                    | Some v \<Rightarrow> if v = JNull then PyDict [] else json_load v),
      enabled = (case member_value ms ''enabled'' of None \<Rightarrow> PyBool True | Some v \<Rightarrow> json_load v)\<rparr>"

subsection \<open>Example states\<close>

text \<open>
  A machine on which every external call fails: \<^verbatim>\<open>feh\<close> is present but cannot be run,
  \<^verbatim>\<open>mpv\<close> is missing, and the process handles refuse every request.
\<close>

definition failing_env :: env where
  "failing_env =
     \<lparr>os_path_exists = (\<lambda>f. f = ''/usr/bin/feh''),
      Path_exists = (\<lambda>f. Inl PermissionError),
      subprocess_run = (\<lambda>cmd. Inl OSError),
      subprocess_Popen = (\<lambda>cmd. Inl FileNotFoundError),
      proc_terminate = (\<lambda>p. Some OSError),
      proc_wait = (\<lambda>p. Some TimeoutExpired),
      proc_kill = (\<lambda>p. Some PermissionError),
      proc_send_signal = (\<lambda>p sig. Some OSError)\<rparr>"

text \<open>A machine on which the tools work; \<^verbatim>\<open>Popen\<close> returns the handle \<open>h\<close>.\<close>

definition working_env :: "proc \<Rightarrow> env" where
  "working_env h =
     \<lparr>os_path_exists = (\<lambda>f. f = ''/usr/bin/feh''),
      Path_exists = (\<lambda>f. Inr True),
      subprocess_run = (\<lambda>cmd. Inr (0, Some [])),
      subprocess_Popen = (\<lambda>cmd. Inr h),
      proc_terminate = (\<lambda>p. None),
      proc_wait = (\<lambda>p. None),
      proc_kill = (\<lambda>p. None),
      proc_send_signal = (\<lambda>p sig. None)\<rparr>"

definition video_config :: WallpaperConfig where
  "video_config = new_config (PyStr ''/home/pi/clip.mp4'') VIDEO (PyInt (- 1)) PyNone (PyBool True)"

text \<open>A manager that tracks two processes.\<close>

definition busy_manager :: WallpaperManager where
  "busy_manager = \<lparr>console = [], active_processes = [3, 4], calls = []\<rparr>"

text \<open>A record whose properties hold a tuple, and one whose properties hold a set.\<close>

definition tuple_config :: WallpaperConfig where
  "tuple_config =
     \<lparr>path = PyStr ''/home/pi/a.png'', wallpaper_type = IMAGE, monitor_id = PyInt (- 1),
      properties = PyDict [(PyStr ''size'', PyTuple [PyInt 1920, PyInt 1080])],
      enabled = PyBool True\<rparr>"

definition object_config :: WallpaperConfig where
  "object_config =
     \<lparr>path = PyStr ''/home/pi/a.png'', wallpaper_type = IMAGE, monitor_id = PyInt (- 1),
      properties = PyDict [(PyStr ''tags'', PyObject 0)],
      enabled = PyBool True\<rparr>"

text \<open>A record with nested properties that \<^verbatim>\<open>json.load\<close> could have returned.\<close>

definition web_config :: WallpaperConfig where
  "web_config =
     \<lparr>path = PyStr ''https://example.com/clock.html'', wallpaper_type = WEB, monitor_id = PyInt 1,
      properties = PyDict [(PyStr ''zoom'', PyInt 2),
                           (PyStr ''tags'', PyList [PyStr ''clock'', PyNone])],
      enabled = PyBool False\<rparr>"

text \<open>A library with the given records in memory and the given file on a writable disk.\<close>

definition library_of :: "WallpaperConfig list \<Rightarrow> file_state \<Rightarrow> WallpaperLibrary" where
  "library_of ws f = \<lparr>console = [], wallpapers = ws, library_file = f, writable = True\<rparr>"

text \<open>A library file with one object, which has a path and a type and nothing else.\<close>

definition image_object :: "(string \<times> json) list" where
  "image_object = [(''path'', JStr ''/home/pi/b.jpg''), (''type'', JStr ''image'')]"

definition one_image_file :: file_state where
  "one_image_file = Document (JArr (map JObj [image_object]))"

text \<open>
  A library file whose only object has \<^verbatim>\<open>null\<close> as its path, the record that
  \<^verbatim>\<open>load_library\<close> builds from it, and an image record.
\<close>

definition null_path_file :: file_state where
  "null_path_file = Document (JArr [JObj [(''path'', JNull), (''type'', JStr ''image'')]])"

definition null_path_config :: WallpaperConfig where
  "null_path_config = new_config PyNone IMAGE (PyInt (- 1)) PyNone (PyBool True)"

definition image_config :: WallpaperConfig where
  "image_config = new_config (PyStr ''/home/pi/a.png'') IMAGE (PyInt (- 1)) PyNone (PyBool True)"

section \<open>Properties\<close>

subsection \<open>Paths\<close>

text \<open>
  The suffix of a path whose last component is a stem, a dot and an extension without
  dots is the dot and the extension, whatever the directory part.
\<close>

lemma split_on_not_Nil: "split_on c s \<noteq> []"
  by (induction s) (auto split: list.splits)

lemma split_on_no_sep: "c \<notin> set s \<Longrightarrow> split_on c s = [s]"
  by (induction s) auto

lemma split_on_last_part:
  "c \<notin> set ys \<Longrightarrow> \<exists>ps. ps \<noteq> [] \<and> split_on c (xs @ c # ys) = ps @ [ys]"
proof (induction xs)
  case Nil
  then have "split_on c ([] @ c # ys) = [[]] @ [ys]"
    by (simp add: split_on_no_sep)
  then show ?case by blast
next
  case (Cons x xs)
  then obtain w ws where ps: "split_on c (xs @ c # ys) = (w # ws) @ [ys]"
    by (metis neq_Nil_conv)
  show ?case
  proof (cases "x = c")
    case True
    then have "split_on c ((x # xs) @ c # ys) = ([] # w # ws) @ [ys]"
      using ps by simp
    then show ?thesis by blast
  next
    case False
    then have "split_on c ((x # xs) @ c # ys) = ((x # w) # ws) @ [ys]"
      using ps by simp
    then show ?thesis by blast
  qed
qed

lemma path_name_last_component:
  assumes "CHR ''/'' \<notin> set name" and "name \<noteq> []" and "name \<noteq> ''.''"
  shows "path_name (dir @ CHR ''/'' # name) = name"
proof -
  obtain ps where ps: "split_on CHR ''/'' (dir @ CHR ''/'' # name) = ps @ [name]"
    using split_on_last_part [OF assms(1)] by blast
  let ?keep = "\<lambda>x. x \<noteq> [] \<and> x \<noteq> ''.''"
  have "filter ?keep (ps @ [name]) = filter ?keep ps @ [name]"
    using assms(2,3) by simp
  then show ?thesis
    by (cases "filter ?keep ps") (simp_all add: path_name_def ps)
qed

lemma rfind_last: "c \<notin> set ys \<Longrightarrow> rfind c (xs @ c # ys) = Some (length xs)"
proof (induction xs)
  case Nil
  have "rfind c ys = None" using Nil by (induction ys) auto
  then show ?case by simp
next
  case (Cons x xs)
  then show ?case by simp
qed

lemma path_suffix_extension:
  assumes "CHR ''/'' \<notin> set stem" and "stem \<noteq> []"
    and "CHR ''/'' \<notin> set e" and "CHR ''.'' \<notin> set e" and "e \<noteq> []"
  shows "path_suffix (dir @ CHR ''/'' # stem @ CHR ''.'' # e) = CHR ''.'' # e"
proof -
  let ?name = "stem @ CHR ''.'' # e"
  have n: "path_name (dir @ CHR ''/'' # ?name) = ?name"
    using assms by (intro path_name_last_component) (auto simp: append_eq_Cons_conv)
  have r: "rfind CHR ''.'' ?name = Some (length stem)"
    using assms(4) by (rule rfind_last)
  show ?thesis
    using assms(2,5) by (simp add: path_suffix_def n r)
qed

lemma path_name_bare:
  assumes "CHR ''/'' \<notin> set name" and "name \<noteq> []" and "name \<noteq> ''.''"
  shows "path_name name = name"
  using assms by (simp add: path_name_def split_on_no_sep)

lemma path_suffix_bare:
  assumes "CHR ''/'' \<notin> set stem" and "stem \<noteq> []"
    and "CHR ''/'' \<notin> set e" and "CHR ''.'' \<notin> set e" and "e \<noteq> []"
  shows "path_suffix (stem @ CHR ''.'' # e) = CHR ''.'' # e"
proof -
  let ?name = "stem @ CHR ''.'' # e"
  have n: "path_name ?name = ?name"
    using assms by (intro path_name_bare) (auto simp: append_eq_Cons_conv)
  have r: "rfind CHR ''.'' ?name = Some (length stem)"
    using assms(4) by (rule rfind_last)
  show ?thesis
    using assms(2,5) by (simp add: path_suffix_def n r)
qed

subsection \<open>Kind inference\<close>

text \<open>
  Claim C2, as amended. The kind inferred by \<^verbatim>\<open>_detect_type\<close> from the lower-cased suffix
  of the path: image for \<^verbatim>\<open>.jpg .jpeg .png .bmp .gif\<close>, video for
  \<^verbatim>\<open>.mp4 .avi .mkv .webm .mov\<close>, web for \<^verbatim>\<open>.html .htm\<close>; a path that starts with
  \<^verbatim>\<open>http\<close> is web only when its suffix is none of the image and video ones; every other
  path is image, and stream is never inferred.
\<close>

theorem detect_type_by_extension:
  "(lower (path_suffix p) \<in> {''.jpg'', ''.jpeg'', ''.png'', ''.bmp'', ''.gif''} \<longrightarrow> detect_type p = IMAGE)
   \<and> (lower (path_suffix p) \<in> {''.mp4'', ''.avi'', ''.mkv'', ''.webm'', ''.mov''} \<longrightarrow> detect_type p = VIDEO)
   \<and> (lower (path_suffix p) \<in> {''.html'', ''.htm''} \<longrightarrow> detect_type p = WEB)
   \<and> (startswith p ''http''
        \<and> lower (path_suffix p) \<notin> {''.jpg'', ''.jpeg'', ''.png'', ''.bmp'', ''.gif''}
        \<and> lower (path_suffix p) \<notin> {''.mp4'', ''.avi'', ''.mkv'', ''.webm'', ''.mov''} \<longrightarrow> detect_type p = WEB)
   \<and> (\<not> startswith p ''http''
        \<and> lower (path_suffix p) \<notin> {''.mp4'', ''.avi'', ''.mkv'', ''.webm'', ''.mov'', ''.html'', ''.htm''}
        \<longrightarrow> detect_type p = IMAGE)
   \<and> detect_type p \<noteq> STREAM"
  by (simp add: detect_type_def Let_def)

text \<open>The amended claim at five paths, one for each of its cases.\<close>

theorem detect_type_by_extension_witness:
  "detect_type ''/home/pi/cat.PNG'' = IMAGE
   \<and> detect_type ''clip.final.mkv'' = VIDEO
   \<and> detect_type ''site/index.html'' = WEB
   \<and> detect_type ''https://example.com/live'' = WEB
   \<and> detect_type ''notes.txt'' = IMAGE"
proof -
  have e1: "lower (path_suffix ''/home/pi/cat.PNG'') = ''.png''" by code_simp
  have e2: "lower (path_suffix ''clip.final.mkv'') = ''.mkv''" by code_simp
  have e3: "lower (path_suffix ''site/index.html'') = ''.html''" by code_simp
  have e4: "lower (path_suffix ''https://example.com/live'') = []" by code_simp
  have s4: "startswith ''https://example.com/live'' ''http''" by code_simp
  have e5: "lower (path_suffix ''notes.txt'') = ''.txt''" by code_simp
  have s5: "\<not> startswith ''notes.txt'' ''http''" by code_simp
  show ?thesis
    using detect_type_by_extension [of "''/home/pi/cat.PNG''"]
          detect_type_by_extension [of "''clip.final.mkv''"]
          detect_type_by_extension [of "''site/index.html''"]
          detect_type_by_extension [of "''https://example.com/live''"]
          detect_type_by_extension [of "''notes.txt''"]
    by (simp add: e1 e2 e3 e4 s4 e5 s5)
qed

text \<open>
  Claim C2 as stated fails: a path that starts with \<^verbatim>\<open>http\<close> and ends in \<^verbatim>\<open>.jpg\<close> is
  an image, because the suffix is tested first.
\<close>

theorem detect_type_http_image_counterexample:
  "startswith ''http://example.com/pic.jpg'' ''http''
   \<and> detect_type ''http://example.com/pic.jpg'' = IMAGE"
  by (simp add: detect_type_def path_suffix_def path_name_def lower_def lower_char_def startswith_def)


subsection \<open>The manager: helper facts\<close>

lemma active_processes_print: "active_processes (print x m) = active_processes m"
  by (simp add: print_def)

lemma calls_print: "calls (print x m) = calls m"
  by (simp add: print_def)

lemma and_then_normal: "and_then (m, None) f = f m"
  by (simp add: and_then_def)

lemma snd_and_then:
  "snd r = None \<Longrightarrow> (\<And>m. snd (f m) = None) \<Longrightarrow> snd (and_then r f) = None"
  by (cases r) (auto simp: and_then_def split: option.splits)

lemma snd_try_except:
  "(\<And>e m. snd (handler e m) = None) \<Longrightarrow> snd (try_except body handler) = None"
  by (cases body) (auto simp: try_except_def split: option.splits)

lemma snd_for_each:
  "(\<And>x m. snd (body x m) = None) \<Longrightarrow> snd (for_each body xs m) = None"
  by (induction xs arbitrary: m) (auto intro: snd_and_then)

lemma snd_stop_process: "snd (stop_process ev p m) = None"
  unfolding stop_process_def
  by (intro snd_try_except) (simp add: normally_def)

lemma snd_stop_all: "snd (stop_all ev m) = None"
  unfolding stop_all_def
  by (auto intro!: snd_and_then snd_for_each snd_stop_process simp: normally_def)

lemma active_processes_stop_all: "active_processes (fst (stop_all ev m)) = []"
proof (cases "active_processes m = []")
  case True
  then show ?thesis by (simp add: stop_all_def normally_def)
next
  case False
  obtain m' where m': "for_each (stop_process ev) (active_processes m)
             (print (Stopping (length (active_processes m))) m) = (m', None)"
    using snd_for_each [of "stop_process ev", OF snd_stop_process]
    by (metis prod.collapse)
  show ?thesis using False
    by (simp add: stop_all_def m' and_then_def normally_def active_processes_print)
qed

lemma for_each_send_signal:
  "for_each (\<lambda>process m'. try_except (send_signal ev process sig m') (\<lambda>e. normally)) ps m
   = (m\<lparr>calls := calls m @ map (\<lambda>p. SendSignal p sig) ps\<rparr>, None)"
proof (induction ps arbitrary: m)
  case Nil
  show ?case by simp
next
  case (Cons p ps)
  have step: "try_except (send_signal ev p sig m) (\<lambda>e. normally) = (record_call (SendSignal p sig) m, None)"
    by (simp add: try_except_def send_signal_def normally_def split: option.splits)
  show ?case
    by (simp add: step and_then_def Cons.IH record_call_def)
qed

lemma snd_set_image_wallpaper: "snd (set_image_wallpaper ev p m) = None"
  unfolding set_image_wallpaper_def
  by (intro snd_try_except) (simp add: normally_def)

lemma snd_set_video_wallpaper: "snd (set_video_wallpaper ev p m) = None"
  unfolding set_video_wallpaper_def
  by (intro snd_try_except) (simp add: normally_def)

lemma snd_set_web_wallpaper: "snd (set_web_wallpaper ev p m) = None"
  unfolding set_web_wallpaper_def Let_def
  by (intro snd_try_except) (simp add: normally_def)

lemma console_print: "console (print x m) = console m @ [x]"
  by (simp add: print_def)

lemma stop_all_outcome: "\<exists>m'. stop_all ev m = (m', None) \<and> active_processes m' = []"
  using snd_stop_all [of ev m] active_processes_stop_all [of ev m]
  by (cases "stop_all ev m") simp

lemma set_video_wallpaper_spawned:
  "subprocess_Popen ev (mpv_cmd p) = Inr h \<Longrightarrow>
   set_video_wallpaper ev p m =
     (print (VideoStarted h)
        ((record_call (Popen (mpv_cmd p)) (print LaunchingMpv (print StartingVideo m)))
           \<lparr>active_processes := active_processes m @ [h]\<rparr>), None)"
  by (simp add: set_video_wallpaper_def try_except_def normally_def Let_def record_call_def
        active_processes_print)

lemma set_video_wallpaper_failed:
  "subprocess_Popen ev (mpv_cmd p) = Inl e \<Longrightarrow>
   set_video_wallpaper ev p m =
     (let m2 = record_call (Popen (mpv_cmd p)) (print LaunchingMpv (print StartingVideo m)) in
      if e = FileNotFoundError then (print InstallMpvHint (print MpvNotFound m2), None)
      else (print (VideoError e) m2, None))"
  by (simp add: set_video_wallpaper_def try_except_def normally_def Let_def)

lemma active_processes_record_call: "active_processes (record_call c m) = active_processes m"
  by (simp add: record_call_def)

lemma set_wallpaper_dispatch:
  assumes "path config = PyStr p"
  shows "\<exists>m1. active_processes m1 = []
           \<and> set_wallpaper ev config m =
               and_then
                 (case wallpaper_type config of
                    IMAGE \<Rightarrow> set_image_wallpaper ev p m1
                  | VIDEO \<Rightarrow> set_video_wallpaper ev p m1
                  | WEB \<Rightarrow> set_web_wallpaper ev p m1
                  | STREAM \<Rightarrow> normally m1)
                 (\<lambda>m2. normally (print Applied m2))"
proof -
  let ?m0 = "print (MonitorLine (monitor_id config))
               (print (TypeLine (type_value (wallpaper_type config)))
                  (print (SettingWallpaper (path_name p)) m))"
  obtain m1 where m1: "stop_all ev ?m0 = (m1, None)" "active_processes m1 = []"
    using stop_all_outcome by blast
  have "set_wallpaper ev config m =
          and_then
            (and_then (stop_all ev ?m0)
               (\<lambda>m1. case wallpaper_type config of
                        IMAGE \<Rightarrow> set_image_wallpaper ev p m1
                      | VIDEO \<Rightarrow> set_video_wallpaper ev p m1
                      | WEB \<Rightarrow> set_web_wallpaper ev p m1
                      | STREAM \<Rightarrow> normally m1))
            (\<lambda>m2. normally (print Applied m2))"
    by (simp only: set_wallpaper_def assms pyval.case Let_def)
  then show ?thesis
    using m1 by (simp only: and_then_normal) blast
qed

lemma set_wallpaper_video_processes:
  assumes "path config = PyStr p" and "wallpaper_type config = VIDEO"
  shows "active_processes (fst (set_wallpaper ev config m)) =
           (case subprocess_Popen ev (mpv_cmd p) of Inl e \<Rightarrow> [] | Inr h \<Rightarrow> [h])"
proof -
  obtain m1 where m1: "active_processes m1 = []"
    and unfold: "set_wallpaper ev config m =
      and_then (set_video_wallpaper ev p m1) (\<lambda>m2. normally (print Applied m2))"
    using set_wallpaper_dispatch [OF assms(1), of ev m] assms(2) by auto
  show ?thesis
  proof (cases "subprocess_Popen ev (mpv_cmd p)")
    case (Inl e)
    then show ?thesis
      by (simp add: unfold set_video_wallpaper_failed and_then_def normally_def Let_def
            active_processes_print active_processes_record_call m1)
  next
    case (Inr h)
    then show ?thesis
      by (simp add: unfold set_video_wallpaper_spawned and_then_def normally_def
            active_processes_print m1)
  qed
qed


lemma set_wallpaper_applied:
  assumes "path config = PyStr p"
  shows "\<exists>m1 m2. active_processes m1 = []
           \<and> (case wallpaper_type config of
                 IMAGE \<Rightarrow> set_image_wallpaper ev p m1
               | VIDEO \<Rightarrow> set_video_wallpaper ev p m1
               | WEB \<Rightarrow> set_web_wallpaper ev p m1
               | STREAM \<Rightarrow> normally m1) = (m2, None)
           \<and> set_wallpaper ev config m = (print Applied m2, None)"
proof -
  obtain m1 where m1: "active_processes m1 = []"
    and unfold: "set_wallpaper ev config m =
               and_then
                 (case wallpaper_type config of
                    IMAGE \<Rightarrow> set_image_wallpaper ev p m1
                  | VIDEO \<Rightarrow> set_video_wallpaper ev p m1
                  | WEB \<Rightarrow> set_web_wallpaper ev p m1
                  | STREAM \<Rightarrow> normally m1)
                 (\<lambda>m2. normally (print Applied m2))"
    using set_wallpaper_dispatch [OF assms, of ev m] by blast
  let ?branch = "case wallpaper_type config of
                    IMAGE \<Rightarrow> set_image_wallpaper ev p m1
                  | VIDEO \<Rightarrow> set_video_wallpaper ev p m1
                  | WEB \<Rightarrow> set_web_wallpaper ev p m1
                  | STREAM \<Rightarrow> normally m1"
  have "snd ?branch = None"
    by (simp add: snd_set_image_wallpaper snd_set_video_wallpaper snd_set_web_wallpaper
          normally_def split: WallpaperType.splits)
  then obtain m2 where m2: "?branch = (m2, None)"
    by (cases ?branch) simp
  have "set_wallpaper ev config m = (print Applied m2, None)"
    unfolding unfold m2 by (simp add: and_then_normal normally_def)
  with m1 m2 show ?thesis by blast
qed

lemma set_image_wallpaper_run_raises:
  "os_path_exists ev ''/usr/bin/feh'' \<Longrightarrow> subprocess_run ev [''feh'', ''--bg-fill'', p] = Inl e \<Longrightarrow>
   ImageError e \<in> set (console (fst (set_image_wallpaper ev p m)))"
  by (simp add: set_image_wallpaper_def try_except_def normally_def Let_def console_print)

lemma set_image_wallpaper_feh_fails:
  "os_path_exists ev ''/usr/bin/feh'' \<Longrightarrow>
   subprocess_run ev [''feh'', ''--bg-fill'', p] = Inr (rc, Some err) \<Longrightarrow> rc \<noteq> 0 \<Longrightarrow>
   FehError err \<in> set (console (fst (set_image_wallpaper ev p m)))"
  by (simp add: set_image_wallpaper_def try_except_def normally_def Let_def console_print)

lemma set_video_wallpaper_reports:
  "subprocess_Popen ev (mpv_cmd p) = Inl e \<Longrightarrow>
   (if e = FileNotFoundError then MpvNotFound else VideoError e)
     \<in> set (console (fst (set_video_wallpaper ev p m)))"
  by (simp add: set_video_wallpaper_failed Let_def console_print)

lemma set_web_wallpaper_reports:
  "\<not> startswith p ''http'' \<Longrightarrow> Path_exists ev p = Inl e \<Longrightarrow>
   WebError e \<in> set (console (fst (set_web_wallpaper ev p m)))"
  by (simp add: set_web_wallpaper_def try_except_def normally_def Let_def console_print)

lemma set_image_wallpaper_feh_undecodable:
  "os_path_exists ev ''/usr/bin/feh'' \<Longrightarrow>
   subprocess_run ev [''feh'', ''--bg-fill'', p] = Inr (rc, None) \<Longrightarrow> rc \<noteq> 0 \<Longrightarrow>
   ImageError UnicodeDecodeError \<in> set (console (fst (set_image_wallpaper ev p m)))"
  by (simp add: set_image_wallpaper_def try_except_def normally_def Let_def console_print)

lemma set_image_wallpaper_gsettings_raises:
  "\<not> os_path_exists ev ''/usr/bin/feh'' \<Longrightarrow> os_path_exists ev ''/usr/bin/gsettings'' \<Longrightarrow>
   subprocess_run ev [''gsettings'', ''set'', ''org.gnome.desktop.background'', ''picture-uri'', ''file://'' @ p] = Inl e \<Longrightarrow>
   ImageError e \<in> set (console (fst (set_image_wallpaper ev p m)))"
  by (simp add: set_image_wallpaper_def try_except_def normally_def Let_def console_print)

lemma set_image_wallpaper_gsettings_fails:
  "\<not> os_path_exists ev ''/usr/bin/feh'' \<Longrightarrow> os_path_exists ev ''/usr/bin/gsettings'' \<Longrightarrow>
   subprocess_run ev [''gsettings'', ''set'', ''org.gnome.desktop.background'', ''picture-uri'', ''file://'' @ p] = Inr (rc, Some err) \<Longrightarrow> rc \<noteq> 0 \<Longrightarrow>
   GsettingsError err \<in> set (console (fst (set_image_wallpaper ev p m)))"
  by (simp add: set_image_wallpaper_def try_except_def normally_def Let_def console_print)

lemma set_image_wallpaper_gsettings_undecodable:
  "\<not> os_path_exists ev ''/usr/bin/feh'' \<Longrightarrow> os_path_exists ev ''/usr/bin/gsettings'' \<Longrightarrow>
   subprocess_run ev [''gsettings'', ''set'', ''org.gnome.desktop.background'', ''picture-uri'', ''file://'' @ p] = Inr (rc, None) \<Longrightarrow> rc \<noteq> 0 \<Longrightarrow>
   ImageError UnicodeDecodeError \<in> set (console (fst (set_image_wallpaper ev p m)))"
  by (simp add: set_image_wallpaper_def try_except_def normally_def Let_def console_print)

lemma set_image_wallpaper_no_tool:
  "\<not> os_path_exists ev ''/usr/bin/feh'' \<Longrightarrow> \<not> os_path_exists ev ''/usr/bin/gsettings'' \<Longrightarrow>
   InstallFehHint \<in> set (console (fst (set_image_wallpaper ev p m)))"
  by (simp add: set_image_wallpaper_def try_except_def normally_def Let_def console_print)

lemma set_web_wallpaper_not_found:
  "\<not> startswith p ''http'' \<Longrightarrow> Path_exists ev p = Inr False \<Longrightarrow>
   WebNotFound p \<in> set (console (fst (set_web_wallpaper ev p m)))"
  by (simp add: set_web_wallpaper_def try_except_def normally_def Let_def console_print)

subsection \<open>Stopping, pausing and resuming\<close>

text \<open>
  Claim C5. For every manager state and every behaviour of the processes, \<^verbatim>\<open>stop_all\<close>
  raises nothing and leaves the list of tracked processes empty; with no tracked process
  it returns the state as it was: no call to any process, nothing printed.
\<close>

theorem stop_all_never_raises_and_clears:
  "snd (stop_all ev m) = None
   \<and> active_processes (fst (stop_all ev m)) = []
   \<and> (active_processes m = [] \<longrightarrow> stop_all ev m = (m, None))"
  by (simp add: snd_stop_all active_processes_stop_all) (simp add: stop_all_def normally_def)


text \<open>Claim C5 on a manager with no process, and on one with two processes that resist.\<close>

theorem stop_all_never_raises_and_clears_witness:
  "active_processes init_manager = []
   \<and> stop_all failing_env init_manager = (init_manager, None)
   \<and> snd (stop_all failing_env busy_manager) = None
   \<and> active_processes (fst (stop_all failing_env busy_manager)) = []"
  using stop_all_never_raises_and_clears [of failing_env init_manager]
        stop_all_never_raises_and_clears [of failing_env busy_manager]
  by (simp add: init_manager_def)

text \<open>
  Claim C6. \<^verbatim>\<open>pause_all\<close> and \<^verbatim>\<open>resume_all\<close> raise nothing and leave the list of tracked
  processes as it was; all they do to the processes is one \<^verbatim>\<open>send_signal\<close> call for each
  tracked process, in list order, with signal 19 and 18, between the two lines they
  print. With no tracked process no call is made.
\<close>

theorem pause_resume_keep_processes:
  "snd (pause_all ev m) = None
   \<and> active_processes (fst (pause_all ev m)) = active_processes m
   \<and> calls (fst (pause_all ev m)) = calls m @ map (\<lambda>p. SendSignal p 19) (active_processes m)
   \<and> snd (resume_all ev m) = None
   \<and> active_processes (fst (resume_all ev m)) = active_processes m
   \<and> calls (fst (resume_all ev m)) = calls m @ map (\<lambda>p. SendSignal p 18) (active_processes m)
   \<and> console (fst (pause_all ev m)) = console m @ [Pausing, Paused (length (active_processes m))]
   \<and> console (fst (resume_all ev m)) = console m @ [Resuming, Resumed (length (active_processes m))]
   \<and> (active_processes m = [] \<longrightarrow>
        calls (fst (pause_all ev m)) = calls m \<and> calls (fst (resume_all ev m)) = calls m)"
  by (simp add: pause_all_def resume_all_def for_each_send_signal and_then_def normally_def
        print_def)

text \<open>Claim C6 on a manager with no process.\<close>

theorem pause_resume_keep_processes_witness:
  "active_processes init_manager = []
   \<and> calls (fst (pause_all failing_env init_manager)) = calls init_manager
   \<and> calls (fst (resume_all failing_env init_manager)) = calls init_manager"
  using pause_resume_keep_processes [of failing_env init_manager]
  by (simp add: init_manager_def)

subsection \<open>Setting a wallpaper\<close>

text \<open>
  Claim C7, as amended. For every record whose path is a string, as the dataclass
  declares it, \<^verbatim>\<open>set_wallpaper\<close> raises nothing whatever the external calls do, and ends
  by printing its last line. Every failure of a dispatch branch is printed. In the image
  branch, with \<^verbatim>\<open>feh\<close> or else \<^verbatim>\<open>gsettings\<close>: the exception of \<^verbatim>\<open>subprocess.run\<close>, the
  stderr of a tool that exits with a code other than 0, the decoding error of a stderr
  that cannot be decoded, and the hint printed when neither tool is present. In the video
  branch: the exception of \<^verbatim>\<open>Popen\<close>, with a message of its own for a missing \<^verbatim>\<open>mpv\<close>.
  In the web branch: the exception of \<^verbatim>\<open>Path.exists\<close>, and the message for a file that
  is not found.
\<close>

theorem set_wallpaper_never_raises:
  assumes "path config = PyStr p"
  shows "snd (set_wallpaper ev config m) = None
    \<and> last (console (fst (set_wallpaper ev config m))) = Applied
    \<and> (wallpaper_type config = IMAGE \<and> os_path_exists ev ''/usr/bin/feh''
         \<and> subprocess_run ev [''feh'', ''--bg-fill'', p] = Inl e1
       \<longrightarrow> ImageError e1 \<in> set (console (fst (set_wallpaper ev config m))))
    \<and> (wallpaper_type config = IMAGE \<and> os_path_exists ev ''/usr/bin/feh''
         \<and> subprocess_run ev [''feh'', ''--bg-fill'', p] = Inr (rc, Some err) \<and> rc \<noteq> 0
       \<longrightarrow> FehError err \<in> set (console (fst (set_wallpaper ev config m))))
    \<and> (wallpaper_type config = IMAGE \<and> os_path_exists ev ''/usr/bin/feh''
         \<and> subprocess_run ev [''feh'', ''--bg-fill'', p] = Inr (rc, None) \<and> rc \<noteq> 0
       \<longrightarrow> ImageError UnicodeDecodeError \<in> set (console (fst (set_wallpaper ev config m))))
    \<and> (wallpaper_type config = IMAGE \<and> \<not> os_path_exists ev ''/usr/bin/feh''
         \<and> os_path_exists ev ''/usr/bin/gsettings''
         \<and> subprocess_run ev [''gsettings'', ''set'', ''org.gnome.desktop.background'', ''picture-uri'', ''file://'' @ p] = Inl e1
       \<longrightarrow> ImageError e1 \<in> set (console (fst (set_wallpaper ev config m))))
    \<and> (wallpaper_type config = IMAGE \<and> \<not> os_path_exists ev ''/usr/bin/feh''
         \<and> os_path_exists ev ''/usr/bin/gsettings''
         \<and> subprocess_run ev [''gsettings'', ''set'', ''org.gnome.desktop.background'', ''picture-uri'', ''file://'' @ p] = Inr (rc, Some err) \<and> rc \<noteq> 0
       \<longrightarrow> GsettingsError err \<in> set (console (fst (set_wallpaper ev config m))))
    \<and> (wallpaper_type config = IMAGE \<and> \<not> os_path_exists ev ''/usr/bin/feh''
         \<and> os_path_exists ev ''/usr/bin/gsettings''
         \<and> subprocess_run ev [''gsettings'', ''set'', ''org.gnome.desktop.background'', ''picture-uri'', ''file://'' @ p] = Inr (rc, None) \<and> rc \<noteq> 0
       \<longrightarrow> ImageError UnicodeDecodeError \<in> set (console (fst (set_wallpaper ev config m))))
    \<and> (wallpaper_type config = IMAGE \<and> \<not> os_path_exists ev ''/usr/bin/feh''
         \<and> \<not> os_path_exists ev ''/usr/bin/gsettings''
       \<longrightarrow> InstallFehHint \<in> set (console (fst (set_wallpaper ev config m))))
    \<and> (wallpaper_type config = VIDEO \<and> subprocess_Popen ev (mpv_cmd p) = Inl e2
       \<longrightarrow> (if e2 = FileNotFoundError then MpvNotFound else VideoError e2)
             \<in> set (console (fst (set_wallpaper ev config m))))
    \<and> (wallpaper_type config = WEB \<and> \<not> startswith p ''http'' \<and> Path_exists ev p = Inl e3
       \<longrightarrow> WebError e3 \<in> set (console (fst (set_wallpaper ev config m))))
    \<and> (wallpaper_type config = WEB \<and> \<not> startswith p ''http'' \<and> Path_exists ev p = Inr False
       \<longrightarrow> WebNotFound p \<in> set (console (fst (set_wallpaper ev config m))))"
proof -
  obtain m1 m2 where branch: "(case wallpaper_type config of
                 IMAGE \<Rightarrow> set_image_wallpaper ev p m1
               | VIDEO \<Rightarrow> set_video_wallpaper ev p m1
               | WEB \<Rightarrow> set_web_wallpaper ev p m1
               | STREAM \<Rightarrow> normally m1) = (m2, None)"
    and res: "set_wallpaper ev config m = (print Applied m2, None)"
    using set_wallpaper_applied [OF assms, of ev m] by blast
  let ?out = "console (fst (set_wallpaper ev config m))"
  have c: "?out = console m2 @ [Applied]"
    by (simp add: res console_print)
  have no_exn: "snd (set_wallpaper ev config m) = None"
    by (simp add: res)
  have applied: "last ?out = Applied"
    by (simp add: c)
  have img: "fst (set_image_wallpaper ev p m1) = m2" if "wallpaper_type config = IMAGE"
    using branch that by simp
  have vdo: "fst (set_video_wallpaper ev p m1) = m2" if "wallpaper_type config = VIDEO"
    using branch that by simp
  have wb: "fst (set_web_wallpaper ev p m1) = m2" if "wallpaper_type config = WEB"
    using branch that by simp
  have f1: "wallpaper_type config = IMAGE
       \<and> os_path_exists ev ''/usr/bin/feh''
       \<and> subprocess_run ev [''feh'', ''--bg-fill'', p] = Inl e1
      \<longrightarrow> ImageError e1 \<in> set ?out"
  proof (intro impI, elim conjE)
    assume h1: "wallpaper_type config = IMAGE"
    assume h2: "os_path_exists ev ''/usr/bin/feh''"
    assume h3: "subprocess_run ev [''feh'', ''--bg-fill'', p] = Inl e1"
    show "ImageError e1 \<in> set ?out"
      using set_image_wallpaper_run_raises [OF h2 h3, of m1] img [OF h1] by (simp add: c)
  qed
  have f2: "wallpaper_type config = IMAGE
       \<and> os_path_exists ev ''/usr/bin/feh''
       \<and> subprocess_run ev [''feh'', ''--bg-fill'', p] = Inr (rc, Some err)
       \<and> rc \<noteq> 0
      \<longrightarrow> FehError err \<in> set ?out"
  proof (intro impI, elim conjE)
    assume h1: "wallpaper_type config = IMAGE"
    assume h2: "os_path_exists ev ''/usr/bin/feh''"
    assume h3: "subprocess_run ev [''feh'', ''--bg-fill'', p] = Inr (rc, Some err)"
    assume h4: "rc \<noteq> 0"
    show "FehError err \<in> set ?out"
      using set_image_wallpaper_feh_fails [OF h2 h3 h4, of m1] img [OF h1] by (simp add: c)
  qed
  have f3: "wallpaper_type config = IMAGE
       \<and> os_path_exists ev ''/usr/bin/feh''
       \<and> subprocess_run ev [''feh'', ''--bg-fill'', p] = Inr (rc, None)
       \<and> rc \<noteq> 0
      \<longrightarrow> ImageError UnicodeDecodeError \<in> set ?out"
  proof (intro impI, elim conjE)
    assume h1: "wallpaper_type config = IMAGE"
    assume h2: "os_path_exists ev ''/usr/bin/feh''"
    assume h3: "subprocess_run ev [''feh'', ''--bg-fill'', p] = Inr (rc, None)"
    assume h4: "rc \<noteq> 0"
    show "ImageError UnicodeDecodeError \<in> set ?out"
      using set_image_wallpaper_feh_undecodable [OF h2 h3 h4, of m1] img [OF h1] by (simp add: c)
  qed
  have g1: "wallpaper_type config = IMAGE
       \<and> \<not> os_path_exists ev ''/usr/bin/feh''
       \<and> os_path_exists ev ''/usr/bin/gsettings''
       \<and> subprocess_run ev [''gsettings'', ''set'', ''org.gnome.desktop.background'', ''picture-uri'', ''file://'' @ p] = Inl e1
      \<longrightarrow> ImageError e1 \<in> set ?out"
  proof (intro impI, elim conjE)
    assume h1: "wallpaper_type config = IMAGE"
    assume h2: "\<not> os_path_exists ev ''/usr/bin/feh''"
    assume h3: "os_path_exists ev ''/usr/bin/gsettings''"
    assume h4: "subprocess_run ev [''gsettings'', ''set'', ''org.gnome.desktop.background'', ''picture-uri'', ''file://'' @ p] = Inl e1"
    show "ImageError e1 \<in> set ?out"
      using set_image_wallpaper_gsettings_raises [OF h2 h3 h4, of m1] img [OF h1] by (simp add: c)
  qed
  have g2: "wallpaper_type config = IMAGE
       \<and> \<not> os_path_exists ev ''/usr/bin/feh''
       \<and> os_path_exists ev ''/usr/bin/gsettings''
       \<and> subprocess_run ev [''gsettings'', ''set'', ''org.gnome.desktop.background'', ''picture-uri'', ''file://'' @ p] = Inr (rc, Some err)
       \<and> rc \<noteq> 0
      \<longrightarrow> GsettingsError err \<in> set ?out"
  proof (intro impI, elim conjE)
    assume h1: "wallpaper_type config = IMAGE"
    assume h2: "\<not> os_path_exists ev ''/usr/bin/feh''"
    assume h3: "os_path_exists ev ''/usr/bin/gsettings''"
    assume h4: "subprocess_run ev [''gsettings'', ''set'', ''org.gnome.desktop.background'', ''picture-uri'', ''file://'' @ p] = Inr (rc, Some err)"
    assume h5: "rc \<noteq> 0"
    show "GsettingsError err \<in> set ?out"
      using set_image_wallpaper_gsettings_fails [OF h2 h3 h4 h5, of m1] img [OF h1] by (simp add: c)
  qed
  have g3: "wallpaper_type config = IMAGE
       \<and> \<not> os_path_exists ev ''/usr/bin/feh''
       \<and> os_path_exists ev ''/usr/bin/gsettings''
       \<and> subprocess_run ev [''gsettings'', ''set'', ''org.gnome.desktop.background'', ''picture-uri'', ''file://'' @ p] = Inr (rc, None)
       \<and> rc \<noteq> 0
      \<longrightarrow> ImageError UnicodeDecodeError \<in> set ?out"
  proof (intro impI, elim conjE)
    assume h1: "wallpaper_type config = IMAGE"
    assume h2: "\<not> os_path_exists ev ''/usr/bin/feh''"
    assume h3: "os_path_exists ev ''/usr/bin/gsettings''"
    assume h4: "subprocess_run ev [''gsettings'', ''set'', ''org.gnome.desktop.background'', ''picture-uri'', ''file://'' @ p] = Inr (rc, None)"
    assume h5: "rc \<noteq> 0"
    show "ImageError UnicodeDecodeError \<in> set ?out"
      using set_image_wallpaper_gsettings_undecodable [OF h2 h3 h4 h5, of m1] img [OF h1] by (simp add: c)
  qed
  have n1: "wallpaper_type config = IMAGE
       \<and> \<not> os_path_exists ev ''/usr/bin/feh''
       \<and> \<not> os_path_exists ev ''/usr/bin/gsettings''
      \<longrightarrow> InstallFehHint \<in> set ?out"
  proof (intro impI, elim conjE)
    assume h1: "wallpaper_type config = IMAGE"
    assume h2: "\<not> os_path_exists ev ''/usr/bin/feh''"
    assume h3: "\<not> os_path_exists ev ''/usr/bin/gsettings''"
    show "InstallFehHint \<in> set ?out"
      using set_image_wallpaper_no_tool [OF h2 h3, of p m1] img [OF h1] by (simp add: c)
  qed
  have vid: "wallpaper_type config = VIDEO
       \<and> subprocess_Popen ev (mpv_cmd p) = Inl e2
      \<longrightarrow> (if e2 = FileNotFoundError then MpvNotFound else VideoError e2) \<in> set ?out"
  proof (intro impI, elim conjE)
    assume h1: "wallpaper_type config = VIDEO"
    assume h2: "subprocess_Popen ev (mpv_cmd p) = Inl e2"
    show "(if e2 = FileNotFoundError then MpvNotFound else VideoError e2) \<in> set ?out"
      using set_video_wallpaper_reports [OF h2, of m1] vdo [OF h1] by (simp add: c)
  qed
  have web: "wallpaper_type config = WEB
       \<and> \<not> startswith p ''http''
       \<and> Path_exists ev p = Inl e3
      \<longrightarrow> WebError e3 \<in> set ?out"
  proof (intro impI, elim conjE)
    assume h1: "wallpaper_type config = WEB"
    assume h2: "\<not> startswith p ''http''"
    assume h3: "Path_exists ev p = Inl e3"
    show "WebError e3 \<in> set ?out"
      using set_web_wallpaper_reports [OF h2 h3, of m1] wb [OF h1] by (simp add: c)
  qed
  have web2: "wallpaper_type config = WEB
       \<and> \<not> startswith p ''http''
       \<and> Path_exists ev p = Inr False
      \<longrightarrow> WebNotFound p \<in> set ?out"
  proof (intro impI, elim conjE)
    assume h1: "wallpaper_type config = WEB"
    assume h2: "\<not> startswith p ''http''"
    assume h3: "Path_exists ev p = Inr False"
    show "WebNotFound p \<in> set ?out"
      using set_web_wallpaper_not_found [OF h2 h3, of m1] wb [OF h1] by (simp add: c)
  qed
  show ?thesis
    by (intro conjI no_exn applied f1 f2 f3 g1 g2 g3 n1 vid web web2)
qed

text \<open>
  Claim C7, as amended, on a machine where \<^verbatim>\<open>mpv\<close> is missing and \<^verbatim>\<open>feh\<close> cannot be run:
  for a video record and for an image record.
\<close>

theorem set_wallpaper_never_raises_witness:
  "path video_config = PyStr ''/home/pi/clip.mp4''
   \<and> wallpaper_type video_config = VIDEO
   \<and> subprocess_Popen failing_env (mpv_cmd ''/home/pi/clip.mp4'') = Inl FileNotFoundError
   \<and> snd (set_wallpaper failing_env video_config busy_manager) = None
   \<and> last (console (fst (set_wallpaper failing_env video_config busy_manager))) = Applied
   \<and> MpvNotFound \<in> set (console (fst (set_wallpaper failing_env video_config busy_manager)))
   \<and> path image_config = PyStr ''/home/pi/a.png''
   \<and> wallpaper_type image_config = IMAGE
   \<and> os_path_exists failing_env ''/usr/bin/feh''
   \<and> subprocess_run failing_env [''feh'', ''--bg-fill'', ''/home/pi/a.png''] = Inl OSError
   \<and> snd (set_wallpaper failing_env image_config busy_manager) = None
   \<and> ImageError OSError \<in> set (console (fst (set_wallpaper failing_env image_config busy_manager)))"
proof -
  have p: "path video_config = PyStr ''/home/pi/clip.mp4''"
    by (simp add: video_config_def new_config_def)
  have t: "wallpaper_type video_config = VIDEO"
    by (simp add: video_config_def new_config_def)
  have f: "subprocess_Popen failing_env (mpv_cmd ''/home/pi/clip.mp4'') = Inl FileNotFoundError"
    by (simp add: failing_env_def)
  have q: "path image_config = PyStr ''/home/pi/a.png''"
    by (simp add: image_config_def new_config_def)
  have u: "wallpaper_type image_config = IMAGE"
    by (simp add: image_config_def new_config_def)
  have x: "os_path_exists failing_env ''/usr/bin/feh''"
    by (simp add: failing_env_def)
  have r: "subprocess_run failing_env [''feh'', ''--bg-fill'', ''/home/pi/a.png''] = Inl OSError"
    by (simp add: failing_env_def)
  have video: "snd (set_wallpaper failing_env video_config busy_manager) = None
     \<and> last (console (fst (set_wallpaper failing_env video_config busy_manager))) = Applied
     \<and> MpvNotFound \<in> set (console (fst (set_wallpaper failing_env video_config busy_manager)))"
    using set_wallpaper_never_raises
            [OF p, where ev = failing_env and m = busy_manager and ?e2.0 = FileNotFoundError]
          t f
    by simp
  have image: "snd (set_wallpaper failing_env image_config busy_manager) = None
     \<and> ImageError OSError \<in> set (console (fst (set_wallpaper failing_env image_config busy_manager)))"
    using set_wallpaper_never_raises
            [OF q, where ev = failing_env and m = busy_manager and ?e1.0 = OSError]
          u x r
    by simp
  from p t f q u x r video image show ?thesis
    by (simp only: simp_thms)
qed

text \<open>
  Claim C7 as stated fails: \<^verbatim>\<open>load_library\<close> accepts a stored object whose path is
  \<^verbatim>\<open>null\<close>, and for the record it builds \<^verbatim>\<open>set_wallpaper\<close> raises TypeError in its first
  \<^verbatim>\<open>print\<close>, which stands outside every \<^verbatim>\<open>try\<close>, even on a machine where all tools work.
\<close>

theorem set_wallpaper_null_path_counterexample:
  "wallpapers (init_library null_path_file True) = [null_path_config]
   \<and> path null_path_config = PyNone
   \<and> set_wallpaper (working_env 9) null_path_config busy_manager = (busy_manager, Some TypeError)"
  by (simp add: null_path_file_def null_path_config_def init_library_def load_library_def
        decode_item_def dict_from_pairs_def new_config_def WallpaperType_of_def dict_get_def
        print_def Let_def set_wallpaper_def)

text \<open>
  Claim C3, as amended. For every manager state and every video record whose path is a
  string: when \<^verbatim>\<open>Popen\<close> returns a handle, the tracked list after \<^verbatim>\<open>set_wallpaper\<close> is
  that handle alone, so no handle tracked before is in it (the new handle being none of
  them); when \<^verbatim>\<open>Popen\<close> raises, the tracked list is empty.
\<close>

theorem set_wallpaper_video_tracks_new_process:
  assumes "path config = PyStr p" and "wallpaper_type config = VIDEO"
  shows "(subprocess_Popen ev (mpv_cmd p) = Inr h \<longrightarrow>
            active_processes (fst (set_wallpaper ev config m)) = [h]
            \<and> (h \<notin> set (active_processes m) \<longrightarrow>
                 set (active_processes (fst (set_wallpaper ev config m)))
                   \<inter> set (active_processes m) = {}))
       \<and> (subprocess_Popen ev (mpv_cmd p) = Inl e \<longrightarrow>
            active_processes (fst (set_wallpaper ev config m)) = [])"
  using set_wallpaper_video_processes [OF assms, of ev m] by auto

text \<open>Claim C3, as amended, for a manager that tracks the processes 3 and 4.\<close>

theorem set_wallpaper_video_tracks_new_process_witness:
  "path video_config = PyStr ''/home/pi/clip.mp4''
   \<and> wallpaper_type video_config = VIDEO
   \<and> subprocess_Popen (working_env 9) (mpv_cmd ''/home/pi/clip.mp4'') = Inr 9
   \<and> 9 \<notin> set (active_processes busy_manager)
   \<and> active_processes (fst (set_wallpaper (working_env 9) video_config busy_manager)) = [9]
   \<and> set (active_processes (fst (set_wallpaper (working_env 9) video_config busy_manager)))
        \<inter> set (active_processes busy_manager) = {}"
proof -
  have p: "path video_config = PyStr ''/home/pi/clip.mp4''"
    by (simp add: video_config_def new_config_def)
  have t: "wallpaper_type video_config = VIDEO"
    by (simp add: video_config_def new_config_def)
  have f: "subprocess_Popen (working_env 9) (mpv_cmd ''/home/pi/clip.mp4'') = Inr 9"
    by (simp add: working_env_def)
  have n: "9 \<notin> set (active_processes busy_manager)"
    by (simp add: busy_manager_def)
  show ?thesis
    using set_wallpaper_video_tracks_new_process [OF p t, of "working_env 9" 9 busy_manager OSError]
    by (simp add: p t f n)
qed

text \<open>
  Claim C3 as stated fails: on a machine without \<^verbatim>\<open>mpv\<close>, \<^verbatim>\<open>Popen\<close> raises
  FileNotFoundError, the handler prints a message, and no process is tracked afterwards.
\<close>

theorem set_wallpaper_video_no_process_counterexample:
  "wallpaper_type video_config = VIDEO
   \<and> active_processes (fst (set_wallpaper failing_env video_config busy_manager)) = []"
proof -
  have p: "path video_config = PyStr ''/home/pi/clip.mp4''"
    by (simp add: video_config_def new_config_def)
  have t: "wallpaper_type video_config = VIDEO"
    by (simp add: video_config_def new_config_def)
  show ?thesis
    using set_wallpaper_video_processes [OF p t, of failing_env busy_manager]
    by (simp add: t failing_env_def)
qed

subsection \<open>The library: helper facts\<close>

lemma load_items_append:
  "load_items items ws = (ws @ fst (load_items items []), snd (load_items items []))"
proof (induction items arbitrary: ws)
  case Nil
  show ?case by simp
next
  case (Cons item items)
  show ?case
  proof (cases "decode_item item")
    case (Inl e)
    then show ?thesis by simp
  next
    case (Inr c)
    show ?thesis
      using Cons.IH [of "ws @ [c]"] Cons.IH [of "[c]"] by (simp add: Inr)
  qed
qed

lemma load_items_takeWhile:
  "fst (load_items items []) =
     map (\<lambda>item. projr (decode_item item)) (takeWhile (\<lambda>item. \<not> isl (decode_item item)) items)"
proof (induction items)
  case Nil
  show ?case by simp
next
  case (Cons item items)
  show ?case
  proof (cases "decode_item item")
    case (Inl e)
    then show ?thesis by simp
  next
    case (Inr c)
    show ?thesis
      using Cons.IH load_items_append [of items "[c]"] by (simp add: Inr)
  qed
qed

lemma wallpapers_print: "wallpapers (print x s) = wallpapers s"
  by (simp add: print_def)

lemma wallpapers_load_library:
  "wallpapers (load_library s) = wallpapers s @ decoded_records (library_file s)"
proof (cases "library_file s")
  case Absent
  then show ?thesis by (simp add: load_library_def decoded_records_def)
next
  case Invalid
  then show ?thesis by (simp add: load_library_def decoded_records_def wallpapers_print)
next
  case (Document j)
  show ?thesis
  proof (cases "py_iter (json_load j)")
    case (Inl e)
    then show ?thesis
      by (simp add: load_library_def decoded_records_def Document wallpapers_print)
  next
    case (Inr items)
    have "load_items items (wallpapers s) =
            (wallpapers s @ fst (load_items items []), snd (load_items items []))"
      by (rule load_items_append)
    then show ?thesis
      by (simp add: load_library_def decoded_records_def Document Inr wallpapers_print
            load_items_takeWhile split: option.splits)
  qed
qed

lemma dict_set_fresh: "k \<notin> fst ` set d \<Longrightarrow> dict_set d k v = d @ [(k, v)]"
  by (induction d) auto

lemma foldl_dict_set_distinct:
  "distinct (map fst (d @ kvs)) \<Longrightarrow>
   foldl (\<lambda>d kv. dict_set d (fst kv) (snd kv)) d kvs = d @ kvs"
proof (induction kvs arbitrary: d)
  case Nil
  show ?case by simp
next
  case (Cons kv kvs)
  have fresh: "fst kv \<notin> fst ` set d"
    using Cons.prems by auto
  have "distinct (map fst ((d @ [kv]) @ kvs))"
    using Cons.prems by simp
  then have "foldl (\<lambda>d kv. dict_set d (fst kv) (snd kv)) (d @ [kv]) kvs = (d @ [kv]) @ kvs"
    by (rule Cons.IH)
  then show ?case
    using dict_set_fresh [OF fresh, of "snd kv"] by simp
qed

lemma dict_from_pairs_distinct: "distinct (map fst kvs) \<Longrightarrow> dict_from_pairs kvs = kvs"
  using foldl_dict_set_distinct [of "[]" kvs] by (simp add: dict_from_pairs_def)

lemma those_map_Some: "(\<forall>x \<in> set xs. f x = Some (g x)) \<Longrightarrow> those (map f xs) = Some (map g xs)"
  by (induction xs) auto

lemma is_str_iff: "is_str v \<longleftrightarrow> (\<exists>k. v = PyStr k)"
  by (cases v) simp_all

lemma json_roundtrip:
  "json_native v \<Longrightarrow> json_dump v = Some (the (json_dump v)) \<and> json_load (the (json_dump v)) = v"
proof (induction v rule: json_native.induct)
  case (1 xs)
  then have elems: "\<forall>x \<in> set xs. json_dump x = Some (the (json_dump x))"
    and inv: "\<forall>x \<in> set xs. json_load (the (json_dump x)) = x"
    by auto
  have dump: "those (map json_dump xs) = Some (map (\<lambda>x. the (json_dump x)) xs)"
    using those_map_Some [of xs json_dump "\<lambda>x. the (json_dump x)"] elems by simp
  have "map (\<lambda>x. json_load (the (json_dump x))) xs = xs"
    using inv by (simp add: map_idI)
  then show ?case
    by (simp add: dump comp_def)
next
  case (2 kvs)
  let ?f = "\<lambda>kv. case key_str (fst kv) of
          None \<Rightarrow> None
        | Some k \<Rightarrow> (case json_dump (snd kv) of None \<Rightarrow> None | Some j \<Rightarrow> Some (k, j))"
  let ?g = "\<lambda>kv. (the (key_str (fst kv)), the (json_dump (snd kv)))"
  from "2.prems" have dist: "distinct (map fst kvs)"
    and keys: "\<forall>kv \<in> set kvs. \<exists>k. fst kv = PyStr k"
    and vals: "\<forall>kv \<in> set kvs. json_native (snd kv)"
    by (auto simp: is_str_iff)
  have ih: "\<forall>kv \<in> set kvs. json_dump (snd kv) = Some (the (json_dump (snd kv)))
              \<and> json_load (the (json_dump (snd kv))) = snd kv"
    using "2.IH" vals by blast
  have "\<forall>kv \<in> set kvs. ?f kv = Some (?g kv)"
  proof
    fix kv assume kv: "kv \<in> set kvs"
    obtain k where k: "fst kv = PyStr k" using keys kv by blast
    obtain j where j: "json_dump (snd kv) = Some j" using ih kv by blast
    show "?f kv = Some (?g kv)" by (simp add: k j)
  qed
  then have dump: "those (map ?f kvs) = Some (map ?g kvs)"
    using those_map_Some [of kvs ?f ?g] by simp
  have "map (\<lambda>m. (PyStr (fst m), json_load (snd m))) (map ?g kvs) = kvs"
  proof -
    have "\<forall>kv \<in> set kvs. (PyStr (fst (?g kv)), json_load (snd (?g kv))) = kv"
    proof
      fix kv assume kv: "kv \<in> set kvs"
      obtain k where k: "fst kv = PyStr k" using keys kv by blast
      have "json_load (the (json_dump (snd kv))) = snd kv" using ih kv by blast
      then show "(PyStr (fst (?g kv)), json_load (snd (?g kv))) = kv"
        by (simp add: k prod_eq_iff)
    qed
    then show ?thesis by (simp add: map_idI comp_def)
  qed
  then show ?case
    by (simp add: dump dict_from_pairs_distinct dist)
qed simp_all


lemma WallpaperType_of_type_value: "WallpaperType_of (PyStr (type_value t)) = Inr t"
  by (cases t) (simp_all add: WallpaperType_of_def)

lemma decode_item_config_dict:
  "properties c \<noteq> PyNone \<Longrightarrow> decode_item (config_dict c) = Inr c"
  by (simp add: decode_item_def config_dict_def WallpaperType_of_type_value new_config_def
        dict_get_def)

lemma load_items_config_dicts:
  "\<forall>c \<in> set cs. properties c \<noteq> PyNone \<Longrightarrow> load_items (map config_dict cs) ws = (ws @ cs, None)"
  by (induction cs arbitrary: ws) (simp_all add: decode_item_config_dict)

lemma json_native_config_dict: "json_native_config c \<Longrightarrow> json_native (config_dict c)"
  by (simp add: json_native_config_def config_dict_def)

lemma library_file_print: "library_file (print x s) = library_file s"
  by (simp add: print_def)

lemma save_library_native:
  assumes "writable s" and "\<forall>c \<in> set (wallpapers s). json_native_config c"
  shows "\<exists>j. library_file (save_library s) = Document j
             \<and> json_load j = PyList (map config_dict (wallpapers s))"
proof -
  have "json_native (PyList (map config_dict (wallpapers s)))"
    using assms(2) by (simp add: json_native_config_dict)
  then obtain j where j: "json_dump (PyList (map config_dict (wallpapers s))) = Some j"
    and l: "json_load j = PyList (map config_dict (wallpapers s))"
    using json_roundtrip by blast
  have "library_file (save_library s) = Document j"
    using assms(1) by (simp add: save_library_def Let_def j library_file_print del: json_dump.simps)
  with l show ?thesis by blast
qed

lemma map_of_dict_set: "map_of (dict_set d k v) k' = (if k' = k then Some v else map_of d k')"
  by (induction d) auto

lemma map_of_foldl_dict_set:
  "map_of (foldl (\<lambda>d kv. dict_set d (fst kv) (snd kv)) d kvs) k =
     (case map_of (rev kvs) k of None \<Rightarrow> map_of d k | Some v \<Rightarrow> Some v)"
proof (induction kvs arbitrary: d)
  case Nil
  show ?case by simp
next
  case (Cons kv kvs)
  show ?case
    by (simp add: Cons.IH map_of_dict_set map_add_def split: option.splits)
qed

lemma map_of_PyStr_keys:
  "map_of (map (\<lambda>m. (PyStr (fst m), g (snd m))) ms) (PyStr k) = map_option g (map_of ms k)"
  by (induction ms) auto

lemma map_of_loaded_object:
  "map_of (dict_from_pairs (map (\<lambda>m. (PyStr (fst m), json_load (snd m))) ms)) (PyStr k) =
     map_option json_load (member_value ms k)"
proof -
  let ?kvs = "map (\<lambda>m. (PyStr (fst m), json_load (snd m))) ms"
  have r: "map_of (rev ?kvs) (PyStr k) = map_option json_load (map_of (rev ms) k)"
    using map_of_PyStr_keys [of json_load "rev ms" k] by (simp add: rev_map)
  have "map_of (dict_from_pairs ?kvs) (PyStr k) = map_of (rev ?kvs) (PyStr k)"
    unfolding dict_from_pairs_def map_of_foldl_dict_set
    by (cases "map_of (rev ?kvs) (PyStr k)") simp_all
  then show ?thesis
    by (simp only: r member_value_def)
qed

lemma json_load_eq_PyStr: "json_load t = PyStr v \<longleftrightarrow> t = JStr v"
  by (cases t) auto

lemma WallpaperType_of_loaded:
  "WallpaperType_of (json_load t) =
     (if t = JStr ''image'' then Inr IMAGE
      else if t = JStr ''video'' then Inr VIDEO
      else if t = JStr ''web'' then Inr WEB
      else if t = JStr ''stream'' then Inr STREAM
      else Inl ValueError)"
  by (simp add: WallpaperType_of_def json_load_eq_PyStr)

lemma json_load_eq_PyNone: "json_load v = PyNone \<longleftrightarrow> v = JNull"
  by (cases v) auto


lemma decode_item_object:
  "decode_item (json_load (JObj ms)) =
     (if has_path_and_valid_type ms then Inr (record_with_defaults ms)
      else if member_value ms ''path'' = None \<or> member_value ms ''type'' = None then Inl KeyError
      else Inl ValueError)"
proof (cases "member_value ms ''path''")
  case None
  then show ?thesis
    by (simp add: decode_item_def map_of_loaded_object has_path_and_valid_type_def)
next
  case p: (Some p)
  show ?thesis
  proof (cases "member_value ms ''type''")
    case None
    then show ?thesis
      by (simp add: decode_item_def map_of_loaded_object has_path_and_valid_type_def p)
  next
    case t: (Some t)
    show ?thesis
    proof (cases "t \<in> set [JStr ''image'', JStr ''video'', JStr ''web'', JStr ''stream'']")
      case False
      then have "WallpaperType_of (json_load t) = Inl ValueError"
        by (simp add: WallpaperType_of_loaded)
      then show ?thesis
        using False
        by (simp add: decode_item_def map_of_loaded_object has_path_and_valid_type_def p t)
    next
      case True
      then obtain ty where ty: "WallpaperType_of (json_load t) = Inr ty"
        by (auto simp: WallpaperType_of_loaded)
      have h: "has_path_and_valid_type ms"
        using True by (simp add: has_path_and_valid_type_def p t)
      have "decode_item (json_load (JObj ms)) = Inr (record_with_defaults ms)"
        by (simp add: decode_item_def map_of_loaded_object p t ty record_with_defaults_def
              new_config_def dict_get_def json_load_eq_PyNone split: option.splits)
      then show ?thesis
        using h by simp
    qed
  qed
qed


lemma load_items_objects:
  "load_items (map (\<lambda>ms. json_load (JObj ms)) objs) ws =
     (ws @ map record_with_defaults (takeWhile has_path_and_valid_type objs),
      if \<forall>ms \<in> set objs. has_path_and_valid_type ms then None
      else Some (let ms = hd (dropWhile has_path_and_valid_type objs) in
                 if member_value ms ''path'' = None \<or> member_value ms ''type'' = None
                 then KeyError else ValueError))"
proof (induction objs arbitrary: ws)
  case Nil
  show ?case by simp
next
  case (Cons ms objs)
  show ?case
  proof (cases "has_path_and_valid_type ms")
    case True
    then show ?thesis
      using Cons.IH [of "ws @ [record_with_defaults ms]"]
      by (simp add: decode_item_object del: json_load.simps)
  next
    case False
    then show ?thesis
      by (simp add: decode_item_object Let_def del: json_load.simps)
  qed
qed

lemma those_map_None: "\<exists>x \<in> set xs. f x = None \<Longrightarrow> those (map f xs) = None"
  by (induction xs) (auto split: option.splits)

lemma json_dump_config_dict:
  "json_serializable_config c \<Longrightarrow>
   json_dump (config_dict c) =
     Some (JObj [(''path'', the (json_dump (path c))),
                 (''type'', JStr (type_value (wallpaper_type c))),
                 (''monitor_id'', the (json_dump (monitor_id c))),
                 (''properties'', the (json_dump (properties c))),
                 (''enabled'', the (json_dump (enabled c)))])"
  by (auto simp: json_serializable_config_def config_dict_def)

lemma json_dump_config_dict_None:
  "\<not> json_serializable_config c \<Longrightarrow> json_dump (config_dict c) = None"
  by (auto simp: json_serializable_config_def config_dict_def split: option.splits)

subsection \<open>Loading the library\<close>

text \<open>
  Claim C4, as amended. \<^verbatim>\<open>load_library\<close> does not replace the list in memory, it appends
  to it: for every library state and every library file, the list after \<^verbatim>\<open>load_library\<close>
  is the list before, followed by the records decoded from the file. The list is exactly
  the decoded records when it was empty before, which is how \<^verbatim>\<open>__init__\<close>, the only
  caller, calls it.
\<close>

theorem load_library_appends:
  "wallpapers (load_library s) = wallpapers s @ decoded_records (library_file s)
   \<and> wallpapers (init_library f w) = decoded_records f"
  by (simp add: wallpapers_load_library init_library_def Let_def wallpapers_print)

text \<open>
  Claim C4 as stated fails: loading a file with one image into a library that holds one
  video record gives two records, the video record first.
\<close>

theorem load_library_keeps_old_records_counterexample:
  "wallpapers (load_library (library_of [video_config] one_image_file))
     = [video_config, new_config (PyStr ''/home/pi/b.jpg'') IMAGE (PyInt (- 1)) PyNone (PyBool True)]
   \<and> decoded_records one_image_file
     = [new_config (PyStr ''/home/pi/b.jpg'') IMAGE (PyInt (- 1)) PyNone (PyBool True)]"
  by (simp add: library_of_def one_image_file_def image_object_def load_library_def
        decoded_records_def decode_item_def dict_from_pairs_def new_config_def
        WallpaperType_of_def dict_get_def print_def Let_def)

text \<open>
  Claim C9. In a library file that is an array of objects, an object is accepted when it
  has a \<^verbatim>\<open>path\<close> and a \<^verbatim>\<open>type\<close> that is a value of the enum, whatever else it has or
  omits. When every object is accepted, \<^verbatim>\<open>load_library\<close> appends one record for each, in
  order, with the defaults for the omitted keys (\<^verbatim>\<open>monitor_id\<close> -1, \<^verbatim>\<open>properties\<close> an
  empty dict, \<^verbatim>\<open>enabled\<close> true), and prints nothing. Otherwise the load fails at the first
  object that is not accepted: the records of the objects before it are appended and the
  error is printed, a KeyError for a missing key, a ValueError for a type outside the enum.
\<close>

theorem load_library_fills_defaults:
  assumes "library_file s = Document (JArr (map JObj objs))"
  shows "((\<forall>ms \<in> set objs. has_path_and_valid_type ms) \<longrightarrow>
            load_library s = s\<lparr>wallpapers := wallpapers s @ map record_with_defaults objs\<rparr>)
       \<and> (\<not> (\<forall>ms \<in> set objs. has_path_and_valid_type ms) \<longrightarrow>
            console (load_library s) =
              console s @ [ErrorLoadingLibrary
                (let ms = hd (dropWhile has_path_and_valid_type objs) in
                 if member_value ms ''path'' = None \<or> member_value ms ''type'' = None
                 then KeyError else ValueError)]
            \<and> wallpapers (load_library s) =
                wallpapers s @ map record_with_defaults (takeWhile has_path_and_valid_type objs))"
proof -
  have items: "py_iter (json_load (JArr (map JObj objs))) = Inr (map (\<lambda>ms. json_load (JObj ms)) objs)"
    by (simp add: comp_def del: json_load.simps(6))
  show ?thesis
  proof (cases "\<forall>ms \<in> set objs. has_path_and_valid_type ms")
    case True
    then have tw: "takeWhile has_path_and_valid_type objs = objs"
      by (simp add: takeWhile_eq_all_conv)
    have "load_items (map (\<lambda>ms. json_load (JObj ms)) objs) (wallpapers s) =
            (wallpapers s @ map record_with_defaults objs, None)"
      using True by (simp add: load_items_objects tw del: json_load.simps)
    then have "load_library s = s\<lparr>wallpapers := wallpapers s @ map record_with_defaults objs\<rparr>"
      by (simp add: load_library_def assms items del: json_load.simps)
    with True show ?thesis by blast
  next
    case False
    define e where "e = (let ms = hd (dropWhile has_path_and_valid_type objs) in
                 if member_value ms ''path'' = None \<or> member_value ms ''type'' = None
                 then KeyError else ValueError)"
    have res: "load_items (map (\<lambda>ms. json_load (JObj ms)) objs) (wallpapers s) =
            (wallpapers s @ map record_with_defaults (takeWhile has_path_and_valid_type objs), Some e)"
      using False unfolding e_def by (simp add: load_items_objects del: json_load.simps)
    have "load_library s =
            print (ErrorLoadingLibrary e)
              (s\<lparr>wallpapers := wallpapers s @ map record_with_defaults (takeWhile has_path_and_valid_type objs)\<rparr>)"
      by (simp add: load_library_def assms items res del: json_load.simps)
    then have "console (load_library s) = console s @ [ErrorLoadingLibrary e]
        \<and> wallpapers (load_library s) =
             wallpapers s @ map record_with_defaults (takeWhile has_path_and_valid_type objs)"
      by (simp add: print_def)
    with False show ?thesis unfolding e_def by blast
  qed
qed

text \<open>
  Claim C9 on the file with one object that has only a path and a type, and on a file
  whose object has no type.
\<close>

theorem load_library_fills_defaults_witness:
  "library_file (library_of [] one_image_file) = Document (JArr (map JObj [image_object]))
   \<and> has_path_and_valid_type image_object
   \<and> load_library (library_of [] one_image_file) =
       (library_of [] one_image_file)
         \<lparr>wallpapers := [\<lparr>path = PyStr ''/home/pi/b.jpg'', wallpaper_type = IMAGE,
                           monitor_id = PyInt (- 1), properties = PyDict [],
                           enabled = PyBool True\<rparr>]\<rparr>
   \<and> \<not> has_path_and_valid_type [(''path'', JStr ''/home/pi/b.jpg'')]
   \<and> console (load_library
        (library_of [] (Document (JArr (map JObj [[(''path'', JStr ''/home/pi/b.jpg'')]])))))
       = [ErrorLoadingLibrary KeyError]"
proof -
  let ?lib = "library_of [] one_image_file"
  let ?bad = "library_of [] (Document (JArr (map JObj [[(''path'', JStr ''/home/pi/b.jpg'')]])))"
  have f: "library_file ?lib = Document (JArr (map JObj [image_object]))"
    by (simp add: library_of_def one_image_file_def)
  have a: "\<forall>ms \<in> set [image_object]. has_path_and_valid_type ms"
    by (simp add: has_path_and_valid_type_def member_value_def image_object_def)
  have r: "map record_with_defaults [image_object] =
             [\<lparr>path = PyStr ''/home/pi/b.jpg'', wallpaper_type = IMAGE,
               monitor_id = PyInt (- 1), properties = PyDict [], enabled = PyBool True\<rparr>]"
    by (simp add: record_with_defaults_def member_value_def image_object_def WallpaperType_of_def)
  have w: "wallpapers ?lib = []" and c: "console ?bad = []"
    by (simp_all add: library_of_def)
  have g: "library_file ?bad = Document (JArr (map JObj [[(''path'', JStr ''/home/pi/b.jpg'')]]))"
    by (simp add: library_of_def)
  have b: "\<not> (\<forall>ms \<in> set [[(''path'', JStr ''/home/pi/b.jpg'')]]. has_path_and_valid_type ms)"
    by (simp add: has_path_and_valid_type_def member_value_def)
  have k: "(let ms = hd (dropWhile has_path_and_valid_type [[(''path'', JStr ''/home/pi/b.jpg'')]]) in
            if member_value ms ''path'' = None \<or> member_value ms ''type'' = None
            then KeyError else ValueError) = KeyError"
    by (simp add: has_path_and_valid_type_def member_value_def)
  have good: "load_library ?lib = ?lib\<lparr>wallpapers := wallpapers ?lib @ map record_with_defaults [image_object]\<rparr>"
    using load_library_fills_defaults [OF f] a by blast
  have bad: "console (load_library ?bad) = console ?bad @ [ErrorLoadingLibrary KeyError]"
    using load_library_fills_defaults [OF g] b unfolding k by blast
  have a': "has_path_and_valid_type image_object"
    using a by simp
  have b': "\<not> has_path_and_valid_type [(''path'', JStr ''/home/pi/b.jpg'')]"
    using b by simp
  show ?thesis
    using f a' b' good bad by (simp only: r w c append_Nil simp_thms)
qed

subsection \<open>Saving the library\<close>

text \<open>
  Claim C8, as amended. When the file can be opened for writing and \<^verbatim>\<open>json.dump\<close> can
  write the fields of every record, \<^verbatim>\<open>save_library\<close> leaves in the file a JSON array with
  one object for each record, in library order, whose members are \<^verbatim>\<open>path\<close>, \<^verbatim>\<open>type\<close>,
  \<^verbatim>\<open>monitor_id\<close>, \<^verbatim>\<open>properties\<close> and \<^verbatim>\<open>enabled\<close>, in this order, \<^verbatim>\<open>type\<close> being the
  enum's string value. When a field of some record cannot be written, the exception is
  caught and the file is left without a JSON document; when the file cannot be opened,
  it is left as it was.
\<close>

theorem save_library_writes_array:
  "(writable s \<and> (\<forall>c \<in> set (wallpapers s). json_serializable_config c) \<longrightarrow>
      library_file (save_library s) =
        Document (JArr (map (\<lambda>c. JObj [(''path'', the (json_dump (path c))),
                                        (''type'', JStr (type_value (wallpaper_type c))),
                                        (''monitor_id'', the (json_dump (monitor_id c))),
                                        (''properties'', the (json_dump (properties c))),
                                        (''enabled'', the (json_dump (enabled c)))])
                            (wallpapers s))))
   \<and> (writable s \<and> \<not> (\<forall>c \<in> set (wallpapers s). json_serializable_config c) \<longrightarrow>
        library_file (save_library s) = Invalid)
   \<and> (\<not> writable s \<longrightarrow> library_file (save_library s) = library_file s)"
proof -
  let ?obj = "\<lambda>c. JObj [(''path'', the (json_dump (path c))),
                        (''type'', JStr (type_value (wallpaper_type c))),
                        (''monitor_id'', the (json_dump (monitor_id c))),
                        (''properties'', the (json_dump (properties c))),
                        (''enabled'', the (json_dump (enabled c)))]"
  have ok: "json_dump (PyList (map config_dict (wallpapers s))) = Some (JArr (map ?obj (wallpapers s)))"
    if "\<forall>c \<in> set (wallpapers s). json_serializable_config c"
  proof -
    have "\<forall>c \<in> set (wallpapers s). json_dump (config_dict c) = Some (?obj c)"
      using that json_dump_config_dict by blast
    then have "those (map (\<lambda>c. json_dump (config_dict c)) (wallpapers s)) = Some (map ?obj (wallpapers s))"
      by (rule those_map_Some)
    then show ?thesis
      by (simp add: comp_def)
  qed
  have bad: "json_dump (PyList (map config_dict (wallpapers s))) = None"
    if "\<not> (\<forall>c \<in> set (wallpapers s). json_serializable_config c)"
  proof -
    have "\<exists>c \<in> set (wallpapers s). json_dump (config_dict c) = None"
      using that json_dump_config_dict_None by blast
    then have "those (map (\<lambda>c. json_dump (config_dict c)) (wallpapers s)) = None"
      by (rule those_map_None)
    then show ?thesis
      by (simp add: comp_def)
  qed
  show ?thesis
    using ok bad
    by (simp add: save_library_def Let_def library_file_print del: json_dump.simps)
qed

text \<open>Claim C8, as amended, on a library with two records, and on a disk that cannot be written.\<close>

theorem save_library_writes_array_witness:
  "writable (library_of [video_config, web_config] Absent)
   \<and> json_serializable_config video_config
   \<and> json_serializable_config web_config
   \<and> library_file (save_library (library_of [video_config, web_config] Absent)) =
       Document (JArr
         [JObj [(''path'', JStr ''/home/pi/clip.mp4''), (''type'', JStr ''video''),
                (''monitor_id'', JInt (- 1)), (''properties'', JObj []), (''enabled'', JBool True)],
          JObj [(''path'', JStr ''https://example.com/clock.html''), (''type'', JStr ''web''),
                (''monitor_id'', JInt 1),
                (''properties'', JObj [(''zoom'', JInt 2), (''tags'', JArr [JStr ''clock'', JNull])]),
                (''enabled'', JBool False)]])
   \<and> \<not> writable ((library_of [object_config] one_image_file)\<lparr>writable := False\<rparr>)
   \<and> library_file (save_library ((library_of [object_config] one_image_file)\<lparr>writable := False\<rparr>))
       = one_image_file"
proof -
  let ?lib = "library_of [video_config, web_config] Absent"
  let ?ro = "(library_of [object_config] one_image_file)\<lparr>writable := False\<rparr>"
  let ?obj = "\<lambda>c. JObj [(''path'', the (json_dump (path c))),
                        (''type'', JStr (type_value (wallpaper_type c))),
                        (''monitor_id'', the (json_dump (monitor_id c))),
                        (''properties'', the (json_dump (properties c))),
                        (''enabled'', the (json_dump (enabled c)))]"
  have w: "writable ?lib"
    by (simp add: library_of_def)
  have ws: "wallpapers ?lib = [video_config, web_config]"
    by (simp add: library_of_def)
  have sv: "json_serializable_config video_config"
    by (simp add: json_serializable_config_def video_config_def new_config_def)
  have sw: "json_serializable_config web_config"
    by (simp add: json_serializable_config_def web_config_def)
  have ser: "\<forall>c \<in> set (wallpapers ?lib). json_serializable_config c"
    by (simp add: ws sv sw)
  have ov: "?obj video_config =
              JObj [(''path'', JStr ''/home/pi/clip.mp4''), (''type'', JStr ''video''),
                (''monitor_id'', JInt (- 1)), (''properties'', JObj []), (''enabled'', JBool True)]"
    by (simp add: video_config_def new_config_def)
  have ow: "?obj web_config =
              JObj [(''path'', JStr ''https://example.com/clock.html''), (''type'', JStr ''web''),
                (''monitor_id'', JInt 1),
                (''properties'', JObj [(''zoom'', JInt 2), (''tags'', JArr [JStr ''clock'', JNull])]),
                (''enabled'', JBool False)]"
    by (simp add: web_config_def)
  have n: "\<not> writable ?ro" and f: "library_file ?ro = one_image_file"
    by (simp_all add: library_of_def)
  have saved: "library_file (save_library ?lib) = Document (JArr (map ?obj (wallpapers ?lib)))"
    using save_library_writes_array [of ?lib] w ser by blast
  have kept: "library_file (save_library ?ro) = library_file ?ro"
    using save_library_writes_array [of ?ro] n by blast
  show ?thesis
    using w sv sw n saved kept by (simp only: ws list.map ov ow f simp_thms)
qed

text \<open>
  Claim C8 as stated fails: for a record whose properties hold a set, \<^verbatim>\<open>json.dump\<close>
  raises TypeError after the file was opened and emptied; no JSON array is in the file.
\<close>

theorem save_library_unserializable_counterexample:
  "library_file (save_library (library_of [object_config] Absent)) = Invalid"
  by (simp add: object_config_def library_of_def save_library_def config_dict_def print_def Let_def)

text \<open>
  Claim C1, as amended. For every library whose records hold values that \<^verbatim>\<open>json.load\<close>
  can return (strings, integers, booleans, \<^verbatim>\<open>None\<close>, lists, dicts with string keys) in
  \<^verbatim>\<open>path\<close>, \<^verbatim>\<open>monitor_id\<close>, \<^verbatim>\<open>properties\<close> and \<^verbatim>\<open>enabled\<close>, \<^verbatim>\<open>properties\<close> not being
  \<^verbatim>\<open>None\<close>, and whose file can be written: saving the library and constructing a new
  library from the saved file gives the same list of records.
\<close>

theorem save_then_reload_roundtrip:
  assumes "writable s" and "\<forall>c \<in> set (wallpapers s). json_native_config c"
  shows "wallpapers (init_library (library_file (save_library s)) w) = wallpapers s"
proof -
  obtain j where f: "library_file (save_library s) = Document j"
    and l: "json_load j = PyList (map config_dict (wallpapers s))"
    using save_library_native [OF assms] by blast
  have props: "\<forall>c \<in> set (wallpapers s). properties c \<noteq> PyNone"
    using assms(2) by (simp add: json_native_config_def)
  show ?thesis
    by (simp add: f init_library_def load_library_def l load_items_config_dicts [OF props]
          Let_def wallpapers_print)
qed

text \<open>Claim C1, as amended, on a library with two records.\<close>

theorem save_then_reload_roundtrip_witness:
  "writable (library_of [video_config, web_config] Absent)
   \<and> json_native_config video_config
   \<and> json_native_config web_config
   \<and> wallpapers (init_library (library_file (save_library (library_of [video_config, web_config] Absent))) True)
       = [video_config, web_config]"
proof -
  let ?lib = "library_of [video_config, web_config] Absent"
  have w: "writable ?lib"
    by (simp add: library_of_def)
  have ws: "wallpapers ?lib = [video_config, web_config]"
    by (simp add: library_of_def)
  have nv: "json_native_config video_config"
    by (simp add: json_native_config_def video_config_def new_config_def)
  have nw: "json_native_config web_config"
    by (simp add: json_native_config_def web_config_def)
  have n: "\<forall>c \<in> set (wallpapers ?lib). json_native_config c"
    by (simp add: ws nv nw)
  show ?thesis
    using save_then_reload_roundtrip [OF w n, of True] w nv nw by (simp only: ws simp_thms)
qed

text \<open>
  Claim C1 as stated fails: a tuple is JSON-serializable, it is written as an array and
  read back as a list, so the reloaded record differs from the saved one.
\<close>

theorem save_then_reload_tuple_counterexample:
  "json_dump (properties tuple_config) \<noteq> None
   \<and> wallpapers (init_library (library_file (save_library (library_of [tuple_config] Absent))) True)
     \<noteq> wallpapers (library_of [tuple_config] Absent)"
  by (simp add: tuple_config_def library_of_def save_library_def config_dict_def init_library_def
        load_library_def decode_item_def dict_from_pairs_def new_config_def WallpaperType_of_def
        dict_get_def print_def Let_def)

subsection \<open>Adding a wallpaper\<close>

text \<open>
  Claim C10. For every library state, every path and every kind, given or not,
  \<^verbatim>\<open>add_wallpaper\<close> leaves the list as it was with one record appended at its end: the
  record it returns, with the path, the given or inferred kind, \<^verbatim>\<open>monitor_id\<close> -1, an
  empty dict as \<^verbatim>\<open>properties\<close> and \<^verbatim>\<open>enabled\<close> true. This holds whether or not the save
  that follows succeeds.
\<close>

theorem add_wallpaper_appends:
  "wallpapers (fst (add_wallpaper p wt s)) =
     wallpapers s @ [\<lparr>path = PyStr p,
                      wallpaper_type = (case wt of None \<Rightarrow> detect_type p | Some t \<Rightarrow> t),
                      monitor_id = PyInt (- 1), properties = PyDict [], enabled = PyBool True\<rparr>]
   \<and> snd (add_wallpaper p wt s) =
        \<lparr>path = PyStr p,
         wallpaper_type = (case wt of None \<Rightarrow> detect_type p | Some t \<Rightarrow> t),
         monitor_id = PyInt (- 1), properties = PyDict [], enabled = PyBool True\<rparr>"
  by (simp add: add_wallpaper_def Let_def new_config_def wallpapers_print save_library_def
        split: option.splits)



end
